theory Spec2Isabelle
  imports Complex_Main "HOL-Library.Sublist"
begin

text \<open>
  The condition evaluator of the Go package \<open>jsonvaluate\<close> (\<open>condition.go\<close>): value
  coercion, the registry of custom operators, the evaluation of a single condition, of a
  condition tree and of a condition chain, and the conversion of trees into chains.
\<close>

section \<open>Values of the data record and of conditions\<close>

text \<open>
  The library evaluates conditions over Go values of type \<open>interface{}\<close>. The embedding
  keeps what the code can tell apart: the dynamic types named in its type switches, the
  reflection kinds it asks for, and whether a value has a \<open>String\<close> method.

  A \<open>float64\<close> is one of the IEEE values; the finite ones carry the rational they denote.
  The comparison operators of Go on floats are written out: every comparison with a
  NaN is false.
\<close>

datatype float64 = NaN | PosInf | NegInf | Finite rat

fun f64_lt :: "float64 \<Rightarrow> float64 \<Rightarrow> bool" where
  "f64_lt NaN y = False"
| "f64_lt x NaN = False"
| "f64_lt (Finite a) (Finite b) = (a < b)"
| "f64_lt (Finite a) PosInf = True"
| "f64_lt (Finite a) NegInf = False"
| "f64_lt NegInf NegInf = False"
| "f64_lt NegInf y = True"
| "f64_lt PosInf y = False"

definition f64_gt :: "float64 \<Rightarrow> float64 \<Rightarrow> bool" where
  "f64_gt x y = f64_lt y x"

fun f64_eq :: "float64 \<Rightarrow> float64 \<Rightarrow> bool" where
  "f64_eq NaN y = False"
| "f64_eq x NaN = False"
| "f64_eq x y = (x = y)"

text \<open>
  The \<open>String\<close> method of a value whose type is not one of the basic types: absent,
  returning a string, or panicking (a value method called through a nil pointer, or a
  method that panics by itself).
\<close>

datatype stringer = NoStringer | StringReturns string | StringPanics

text \<open>
  \<open>VInt\<close> stands for \<open>int\<close>, \<open>int8\<close>, \<open>int16\<close> and \<open>int32\<close>, which the code never
  tells apart; \<open>int64\<close> is separate because \<open>toTime\<close> accepts it alone. \<open>VUint\<close> stands
  for the five unsigned types. A \<open>float32\<close> is kept as the \<open>float64\<close> it widens to.
  \<open>VTime\<close> is a \<open>time.Time\<close>, of a type \<open>'t\<close> left to the time package. A map is the
  list of its entries in the order \<open>MapKeys\<close> yields them. \<open>VChan\<close> carries the number
  of buffered elements, \<open>VPtr\<close> whether the pointer is nil, \<open>VOpaque\<close> is a value of any
  other kind (struct, func, complex). \<open>VOther u s\<close> is a value of a defined type, or of a
  type with methods: reflection sees \<open>u\<close>, and \<open>s\<close> is its \<open>String\<close> method.
\<close>

datatype 't val =
    VNil
  | VBool bool
  | VString string
  | VInt int
  | VInt64 int
  | VUint nat
  | VFloat32 float64
  | VFloat64 float64
  | VTime 't
  | VSlice "'t val list"
  | VArray "'t val list"
  | VMap "('t val \<times> 't val) list"
  | VChan nat
  | VPtr bool
  | VOpaque
  | VOther "'t val" stringer

text \<open>
  The functions of the Go standard library that the code calls are parameters of the
  embedding. \<open>ParseFloat s\<close> is \<open>strconv.ParseFloat(s, 64)\<close> (\<open>None\<close> when it returns
  an error), \<open>float64_of_int\<close> the conversion \<open>float64(i)\<close>, \<open>Sprint\<close> is
  \<open>fmt.Sprintf("%v", v)\<close>, \<open>time_Parse layout s\<close> is \<open>time.Parse\<close>, \<open>MatchString\<close> is
  \<open>regexp.MatchString\<close> (\<open>None\<close> when the pattern does not compile).
\<close>

record 't golib =
  ParseFloat :: "string \<Rightarrow> float64 option"
  float64_of_int :: "int \<Rightarrow> float64"
  DeepEqual :: "'t val \<Rightarrow> 't val \<Rightarrow> bool"
  Sprint :: "'t val \<Rightarrow> string"
  time_Parse :: "string \<Rightarrow> string \<Rightarrow> 't option"
  time_Unix :: "int \<Rightarrow> 't"
  Before :: "'t \<Rightarrow> 't \<Rightarrow> bool"
  After :: "'t \<Rightarrow> 't \<Rightarrow> bool"
  Time_String :: "'t \<Rightarrow> string"
  ToLower :: "string \<Rightarrow> string"
  MatchString :: "string \<Rightarrow> string \<Rightarrow> bool option"

section \<open>Operators and logic\<close>

type_synonym Operator = string
type_synonym Logic = string

definition OperatorEq :: Operator where "OperatorEq = ''==''"
definition OperatorNeq :: Operator where "OperatorNeq = ''!=''"
definition OperatorGt :: Operator where "OperatorGt = ''>''"
definition OperatorGte :: Operator where "OperatorGte = ''>=''"
definition OperatorLt :: Operator where "OperatorLt = ''<''"
definition OperatorLte :: Operator where "OperatorLte = ''<=''"
definition OperatorIn :: Operator where "OperatorIn = ''in''"
definition OperatorNin :: Operator where "OperatorNin = ''nin''"
definition OperatorContains :: Operator where "OperatorContains = ''contains''"
definition OperatorNcontains :: Operator where "OperatorNcontains = ''ncontains''"
definition OperatorIsnull :: Operator where "OperatorIsnull = ''isnull''"
definition OperatorIsnotnull :: Operator where "OperatorIsnotnull = ''isnotnull''"
definition OperatorIsEmpty :: Operator where "OperatorIsEmpty = ''isempty''"
definition OperatorIsNotEmpty :: Operator where "OperatorIsNotEmpty = ''isnotempty''"
definition OperatorIsTrue :: Operator where "OperatorIsTrue = ''istrue''"
definition OperatorIsFalse :: Operator where "OperatorIsFalse = ''isfalse''"
definition OperatorLike :: Operator where "OperatorLike = ''like''"
definition OperatorIlike :: Operator where "OperatorIlike = ''ilike''"
definition OperatorNlike :: Operator where "OperatorNlike = ''nlike''"
definition OperatorStartsWith :: Operator where "OperatorStartsWith = ''startswith''"
definition OperatorEndsWith :: Operator where "OperatorEndsWith = ''endswith''"
definition OperatorBetween :: Operator where "OperatorBetween = ''between''"
definition OperatorNotBetween :: Operator where "OperatorNotBetween = ''notbetween''"

definition LogicAnd :: Logic where "LogicAnd = ''AND''"
definition LogicOr :: Logic where "LogicOr = ''OR''"

section \<open>Value coercion\<close>

text \<open>
  A call that panics has the value \<open>None\<close>. The only call of the coercion layer that can
  panic is \<open>val.String()\<close> in \<open>toString\<close>; every function that reaches it passes the
  panic on.
\<close>

fun isEmpty :: "'t val \<Rightarrow> bool" where
  "isEmpty VNil = True"
| "isEmpty (VString s) = (s = [])"
| "isEmpty (VArray xs) = (length xs = 0)"
| "isEmpty (VSlice xs) = (length xs = 0)"
| "isEmpty (VMap kvs) = (length kvs = 0)"
| "isEmpty (VChan n) = (n = 0)"
| "isEmpty (VPtr isnil) = isnil"
| "isEmpty (VOther u s) = isEmpty u"
| "isEmpty v = False"

fun toBool :: "'t golib \<Rightarrow> 't val \<Rightarrow> bool" where
  "toBool L VNil = False"
| "toBool L (VBool b) = b"
| "toBool L (VString s) = (ToLower L s = ''true'')"
| "toBool L (VInt i) = (i \<noteq> 0)"
| "toBool L (VInt64 i) = (i \<noteq> 0)"
| "toBool L (VUint n) = (n \<noteq> 0)"
| "toBool L (VFloat32 f) = (\<not> f64_eq f (Finite 0))"
| "toBool L (VFloat64 f) = (\<not> f64_eq f (Finite 0))"
| "toBool L v = (\<not> isEmpty v)"

fun toNumber :: "'t golib \<Rightarrow> 't val \<Rightarrow> float64 option" where
  "toNumber L (VInt i) = Some (float64_of_int L i)"
| "toNumber L (VInt64 i) = Some (float64_of_int L i)"
| "toNumber L (VUint n) = Some (float64_of_int L (int n))"
| "toNumber L (VFloat32 f) = Some f"
| "toNumber L (VFloat64 f) = Some f"
| "toNumber L (VString s) = ParseFloat L s"
| "toNumber L v = None"

fun toString :: "'t golib \<Rightarrow> 't val \<Rightarrow> string option" where
  "toString L VNil = Some []"
| "toString L (VString s) = Some s"
| "toString L (VTime t) = Some (Time_String L t)"
| "toString L (VOther u (StringReturns s)) = Some s"
| "toString L (VOther u StringPanics) = None"
| "toString L v = Some (Sprint L v)"

definition time_formats :: "string list" where
  "time_formats =
     [''2006-01-02T15:04:05Z07:00'',
      ''2006-01-02T15:04:05.999999999Z07:00'',
      ''2006-01-02 15:04:05'',
      ''2006-01-02'',
      ''15:04:05'']"

fun try_formats :: "'t golib \<Rightarrow> string list \<Rightarrow> string \<Rightarrow> 't option" where
  "try_formats L [] s = None"
| "try_formats L (format # formats) s =
     (case time_Parse L format s of
        Some t \<Rightarrow> Some t
      | None \<Rightarrow> try_formats L formats s)"

fun toTime :: "'t golib \<Rightarrow> 't val \<Rightarrow> 't option" where
  "toTime L (VTime t) = Some t"
| "toTime L (VString s) = try_formats L time_formats s"
| "toTime L (VInt64 i) = Some (time_Unix L i)"
| "toTime L v = None"

text \<open>Go compares strings byte by byte.\<close>

fun str_less :: "string \<Rightarrow> string \<Rightarrow> bool" where
  "str_less [] [] = False"
| "str_less [] (y # ys) = True"
| "str_less (x # xs) [] = False"
| "str_less (x # xs) (y # ys) =
     (if (of_char x :: nat) < of_char y then True
      else if (of_char y :: nat) < of_char x then False
      else str_less xs ys)"

definition compare_strings :: "'t golib \<Rightarrow> 't val \<Rightarrow> 't val \<Rightarrow> int option" where
  "compare_strings L v1 v2 =
     (case toString L v1 of
        None \<Rightarrow> None
      | Some s1 \<Rightarrow>
          (case toString L v2 of
             None \<Rightarrow> None
           | Some s2 \<Rightarrow>
               Some (if str_less s1 s2 then - 1 else if str_less s2 s1 then 1 else 0)))"

definition compare_times :: "'t golib \<Rightarrow> 't val \<Rightarrow> 't val \<Rightarrow> int option" where
  "compare_times L v1 v2 =
     (case toTime L v1 of
        Some t1 \<Rightarrow>
          (case toTime L v2 of
             Some t2 \<Rightarrow>
               Some (if Before L t1 t2 then - 1 else if After L t1 t2 then 1 else 0)
           | None \<Rightarrow> compare_strings L v1 v2)
      | None \<Rightarrow> compare_strings L v1 v2)"

definition compareValues :: "'t golib \<Rightarrow> 't val \<Rightarrow> 't val \<Rightarrow> int option" where
  "compareValues L v1 v2 =
     (case toNumber L v1 of
        Some n1 \<Rightarrow>
          (case toNumber L v2 of
             Some n2 \<Rightarrow>
               Some (if f64_lt n1 n2 then - 1 else if f64_gt n1 n2 then 1 else 0)
           | None \<Rightarrow> compare_times L v1 v2)
      | None \<Rightarrow> compare_times L v1 v2)"

definition equal_strings :: "'t golib \<Rightarrow> 't val \<Rightarrow> 't val \<Rightarrow> bool option" where
  "equal_strings L v1 v2 =
     (case toString L v1 of
        None \<Rightarrow> None
      | Some s1 \<Rightarrow>
          (case toString L v2 of
             None \<Rightarrow> None
           | Some s2 \<Rightarrow> Some (s1 = s2)))"

definition isEqual :: "'t golib \<Rightarrow> 't val \<Rightarrow> 't val \<Rightarrow> bool option" where
  "isEqual L v1 v2 =
     (if v1 = VNil \<and> v2 = VNil then Some True
      else if v1 = VNil \<or> v2 = VNil then Some False
      else if DeepEqual L v1 v2 then Some True
      else (case toNumber L v1 of
              Some n1 \<Rightarrow>
                (case toNumber L v2 of
                   Some n2 \<Rightarrow> Some (f64_eq n1 n2)
                 | None \<Rightarrow> equal_strings L v1 v2)
            | None \<Rightarrow> equal_strings L v1 v2))"

text \<open>The loop of \<open>isIn\<close> over the elements of a slice or the keys of a map.\<close>

fun isIn_loop :: "'t golib \<Rightarrow> 't val \<Rightarrow> 't val list \<Rightarrow> bool option" where
  "isIn_loop L v [] = Some False"
| "isIn_loop L v (x # xs) =
     (case isEqual L v x of
        None \<Rightarrow> None
      | Some True \<Rightarrow> Some True
      | Some False \<Rightarrow> isIn_loop L v xs)"

definition Contains :: "string \<Rightarrow> string \<Rightarrow> bool" where
  "Contains s substr = sublist substr s"

definition HasPrefix :: "string \<Rightarrow> string \<Rightarrow> bool" where
  "HasPrefix s pre = prefix pre s"

definition HasSuffix :: "string \<Rightarrow> string \<Rightarrow> bool" where
  "HasSuffix s suf = suffix suf s"

fun isIn :: "'t golib \<Rightarrow> 't val \<Rightarrow> 't val \<Rightarrow> bool option" where
  "isIn L v VNil = Some False"
| "isIn L v (VArray xs) = isIn_loop L v xs"
| "isIn L v (VSlice xs) = isIn_loop L v xs"
| "isIn L v (VMap kvs) = isIn_loop L v (map fst kvs)"
| "isIn L v (VString s) =
     (case toString L v of None \<Rightarrow> None | Some sv \<Rightarrow> Some (Contains s sv))"
| "isIn L v (VOther u s) = isIn L v u"
| "isIn L v collection = Some False"

definition contains :: "'t golib \<Rightarrow> 't val \<Rightarrow> 't val \<Rightarrow> bool option" where
  "contains L haystack needle =
     (if haystack = VNil \<or> needle = VNil then Some False
      else (case toString L haystack of
              None \<Rightarrow> None
            | Some haystackStr \<Rightarrow>
                (case toString L needle of
                   None \<Rightarrow> None
                 | Some needleStr \<Rightarrow> Some (Contains haystackStr needleStr))))"

text \<open>\<open>strings.ReplaceAll\<close> for a pattern of one byte.\<close>

definition ReplaceAll :: "string \<Rightarrow> char \<Rightarrow> string \<Rightarrow> string" where
  "ReplaceAll s old new = concat (map (\<lambda>c. if c = old then new else [c]) s)"

definition like :: "'t golib \<Rightarrow> 't val \<Rightarrow> 't val \<Rightarrow> bool \<Rightarrow> bool option" where
  "like L v pattern caseInsensitive =
     (if v = VNil \<or> pattern = VNil then Some False
      else (case toString L v of
              None \<Rightarrow> None
            | Some str0 \<Rightarrow>
                (case toString L pattern of
                   None \<Rightarrow> None
                 | Some pat0 \<Rightarrow>
                     (let str = (if caseInsensitive then ToLower L str0 else str0);
                          pat = (if caseInsensitive then ToLower L pat0 else pat0);
                          regexPattern = ReplaceAll (ReplaceAll pat (CHR ''%'') ''.*'') (CHR ''_'') ''.'';
                          regexPattern = ''^'' @ regexPattern @ ''$''
                      in (case MatchString L regexPattern str of
                            None \<Rightarrow> Some False
                          | Some matched \<Rightarrow> Some matched)))))"

definition startsWith :: "'t golib \<Rightarrow> 't val \<Rightarrow> 't val \<Rightarrow> bool option" where
  "startsWith L v pre =
     (if v = VNil \<or> pre = VNil then Some False
      else (case toString L v of
              None \<Rightarrow> None
            | Some str \<Rightarrow>
                (case toString L pre of
                   None \<Rightarrow> None
                 | Some p \<Rightarrow> Some (HasPrefix str p))))"

definition endsWith :: "'t golib \<Rightarrow> 't val \<Rightarrow> 't val \<Rightarrow> bool option" where
  "endsWith L v suf =
     (if v = VNil \<or> suf = VNil then Some False
      else (case toString L v of
              None \<Rightarrow> None
            | Some str \<Rightarrow>
                (case toString L suf of
                   None \<Rightarrow> None
                 | Some s \<Rightarrow> Some (HasSuffix str s))))"

text \<open>
  The bounds of \<open>between\<close> must be of kind slice and of length two; \<open>&&\<close> does not
  evaluate the comparison with the upper bound once the first one has failed.
\<close>

fun slice_elems :: "'t val \<Rightarrow> 't val list option" where
  "slice_elems (VSlice xs) = Some xs"
| "slice_elems (VOther u s) = slice_elems u"
| "slice_elems v = None"

definition between :: "'t golib \<Rightarrow> 't val \<Rightarrow> 't val \<Rightarrow> bool option" where
  "between L v bounds =
     (if v = VNil \<or> bounds = VNil then Some False
      else (case slice_elems bounds of
              Some [bmin, bmax] \<Rightarrow>
                (case compareValues L v bmin of
                   None \<Rightarrow> None
                 | Some c1 \<Rightarrow>
                     if c1 \<ge> 0
                     then (case compareValues L v bmax of
                             None \<Rightarrow> None
                           | Some c2 \<Rightarrow> Some (c2 \<le> 0))
                     else Some False)
            | _ \<Rightarrow> Some False))"

section \<open>The registry of custom operators\<close>

text \<open>
  A validator is a Go function value; a call of it returns a boolean or panics
  (\<open>None\<close>). It is taken as a function of its two arguments: what a validator may do
  besides returning is outside the embedding. The registry is the global map
  \<open>customOperators\<close>, passed explicitly; the mutex around it has no part in a sequential
  run. \<open>RegisterCustomOperator\<close> receives a validator that may be nil (\<open>None\<close>) and
  panics then.
\<close>

type_synonym 't CustomOperatorValidator = "'t val \<Rightarrow> 't val \<Rightarrow> bool option"

type_synonym 't registry = "Operator \<rightharpoonup> 't CustomOperatorValidator"

definition RegisterCustomOperator ::
  "Operator \<Rightarrow> 't CustomOperatorValidator option \<Rightarrow> 't registry \<Rightarrow> 't registry option" where
  "RegisterCustomOperator operator validator customOperators =
     (case validator of
        None \<Rightarrow> None
      | Some f \<Rightarrow> Some (customOperators(operator \<mapsto> f)))"

definition UnregisterCustomOperator :: "Operator \<Rightarrow> 't registry \<Rightarrow> 't registry" where
  "UnregisterCustomOperator operator customOperators = customOperators(operator := None)"

section \<open>Evaluation of a single condition\<close>

type_synonym 't data = "string \<rightharpoonup> 't val"

text \<open>
  The call of a validator under the deferred \<open>recover\<close>: when the validator panics the
  function returns the zero value of its result, \<open>false\<close>.
\<close>

definition call_recovered :: "'t CustomOperatorValidator \<Rightarrow> 't val \<Rightarrow> 't val \<Rightarrow> bool" where
  "call_recovered validator v val =
     (case validator v val of None \<Rightarrow> False | Some b \<Rightarrow> b)"

definition evalSingleCondition ::
  "'t golib \<Rightarrow> 't registry \<Rightarrow> string \<Rightarrow> Operator \<Rightarrow> 't val \<Rightarrow> 't data \<Rightarrow> bool option" where
  "evalSingleCondition L customOperators key op val data =
     (let v = (case data key of None \<Rightarrow> VNil | Some x \<Rightarrow> x);
          exists = (data key \<noteq> None)
      in if op = OperatorIsnull then Some (\<not> exists \<or> v = VNil)
         else if op = OperatorIsnotnull then Some (exists \<and> v \<noteq> VNil)
         else if op = OperatorIsEmpty then Some (isEmpty v)
         else if op = OperatorIsNotEmpty then Some (\<not> isEmpty v)
         else if op = OperatorIsTrue then Some (toBool L v)
         else if op = OperatorIsFalse then Some (\<not> toBool L v)
         else if \<not> exists then
           (case customOperators op of
              Some validator \<Rightarrow> Some (call_recovered validator v val)
            | None \<Rightarrow> Some False)
         else if op = OperatorEq then isEqual L v val
         else if op = OperatorNeq then map_option Not (isEqual L v val)
         else if op = OperatorGt then map_option (\<lambda>c. c > 0) (compareValues L v val)
         else if op = OperatorGte then map_option (\<lambda>c. c \<ge> 0) (compareValues L v val)
         else if op = OperatorLt then map_option (\<lambda>c. c < 0) (compareValues L v val)
         else if op = OperatorLte then map_option (\<lambda>c. c \<le> 0) (compareValues L v val)
         else if op = OperatorIn then isIn L v val
         else if op = OperatorNin then map_option Not (isIn L v val)
         else if op = OperatorContains then contains L v val
         else if op = OperatorNcontains then map_option Not (contains L v val)
         else if op = OperatorLike then like L v val False
         else if op = OperatorIlike then like L v val True
         else if op = OperatorNlike then map_option Not (like L v val False)
         else if op = OperatorStartsWith then startsWith L v val
         else if op = OperatorEndsWith then endsWith L v val
         else if op = OperatorBetween then between L v val
         else if op = OperatorNotBetween then map_option Not (between L v val)
         else (case customOperators op of
                 Some validator \<Rightarrow> Some (call_recovered validator v val)
               | None \<Rightarrow> Some False))"

section \<open>Condition trees\<close>

datatype 't Conditions =
  Conditions (Logic: Logic) (Children: "'t Conditions list")
    (Key: string) (Operator: Operator) (Value: "'t val")

text \<open>
  The datatype holds the finite trees: a \<open>Children\<close> slice that reaches its own node
  again is left out.

  \<open>and_children\<close> and \<open>or_children\<close> are the two \<open>for\<close> loops over \<open>cond.Children\<close>,
  each with its early \<open>return\<close>. A logic that is neither \<open>AND\<close> nor \<open>OR\<close> leaves the
  \<open>switch\<close> and falls through to the test for a single condition.
\<close>

fun EvaluateCondition ::
    "'t golib \<Rightarrow> 't registry \<Rightarrow> 't Conditions \<Rightarrow> 't data \<Rightarrow> bool option"
  and and_children ::
    "'t golib \<Rightarrow> 't registry \<Rightarrow> 't Conditions list \<Rightarrow> 't data \<Rightarrow> bool option"
  and or_children ::
    "'t golib \<Rightarrow> 't registry \<Rightarrow> 't Conditions list \<Rightarrow> 't data \<Rightarrow> bool option" where
  "EvaluateCondition L R (Conditions lg ch k op v) data =
     (if lg \<noteq> [] \<and> length ch > 0 \<and> lg = LogicAnd then and_children L R ch data
      else if lg \<noteq> [] \<and> length ch > 0 \<and> lg = LogicOr then or_children L R ch data
      else if k \<noteq> [] \<and> op \<noteq> [] then evalSingleCondition L R k op v data
      else Some True)"
| "and_children L R [] data = Some True"
| "and_children L R (child # rest) data =
     (case EvaluateCondition L R child data of
        None \<Rightarrow> None
      | Some b \<Rightarrow> if \<not> b then Some False else and_children L R rest data)"
| "or_children L R [] data = Some False"
| "or_children L R (child # rest) data =
     (case EvaluateCondition L R child data of
        None \<Rightarrow> None
      | Some b \<Rightarrow> if b then Some True else or_children L R rest data)"

section \<open>Condition chains\<close>

datatype 't ConditionGroup =
  ConditionGroup (GroupConditions: "'t ConditionWithLogic list")
and 't ConditionWithLogic =
  ConditionWithLogic (LinkKey: string) (LinkOperator: Operator) (LinkValue: "'t val")
    (Group: "'t ConditionGroup option") (NextLogic: Logic)

text \<open>
  \<open>chain_loop\<close> is the loop of \<open>EvaluateConditionGroup\<close> from index 1 on; it carries
  the \<open>NextLogic\<close> of the previous link and the result so far. The right operand of
  \<open>&&\<close> and \<open>||\<close> is a variable there, already evaluated.
\<close>

fun EvaluateConditionGroup ::
    "'t golib \<Rightarrow> 't registry \<Rightarrow> 't ConditionGroup \<Rightarrow> 't data \<Rightarrow> bool option"
  and chain_loop ::
    "'t golib \<Rightarrow> 't registry \<Rightarrow> Logic \<Rightarrow> bool \<Rightarrow> 't ConditionWithLogic list \<Rightarrow> 't data \<Rightarrow> bool option"
  and evaluateConditionWithLogic ::
    "'t golib \<Rightarrow> 't registry \<Rightarrow> 't ConditionWithLogic \<Rightarrow> 't data \<Rightarrow> bool option" where
  "EvaluateConditionGroup L R (ConditionGroup []) data = Some True"
| "EvaluateConditionGroup L R (ConditionGroup (first # rest)) data =
     (case evaluateConditionWithLogic L R first data of
        None \<Rightarrow> None
      | Some result \<Rightarrow> chain_loop L R (NextLogic first) result rest data)"
| "chain_loop L R prevLogic result [] data = Some result"
| "chain_loop L R prevLogic result (cur # rest) data =
     (case evaluateConditionWithLogic L R cur data of
        None \<Rightarrow> None
      | Some currentResult \<Rightarrow>
          chain_loop L R (NextLogic cur)
            (if prevLogic = LogicAnd then result \<and> currentResult
             else if prevLogic = LogicOr then result \<or> currentResult
             else result \<and> currentResult)
            rest data)"
| "evaluateConditionWithLogic L R (ConditionWithLogic k op v g nl) data =
     (case g of
        Some grp \<Rightarrow> EvaluateConditionGroup L R grp data
      | None \<Rightarrow> evalSingleCondition L R k op v data)"

section \<open>Conversion of a tree into a chain\<close>

text \<open>
  \<open>convert_children\<close> is the loop over \<open>conditions.Children\<close>: the index \<open>i\<close> is below
  \<open>len - 1\<close> exactly when children remain after the current one.
\<close>

fun ConvertToConditionGroup :: "'t Conditions \<Rightarrow> 't ConditionGroup"
  and convert_children :: "Logic \<Rightarrow> 't Conditions list \<Rightarrow> 't ConditionWithLogic list" where
  "ConvertToConditionGroup (Conditions lg ch k op v) =
     (if k \<noteq> [] then ConditionGroup [ConditionWithLogic k op v None []]
      else if length ch = 0 then ConditionGroup []
      else ConditionGroup (convert_children lg ch))"
| "convert_children lg [] = []"
| "convert_children lg (child # rest) =
     (let nextLogic = (if rest \<noteq> [] then lg else [])
      in (if Key child \<noteq> []
          then ConditionWithLogic (Key child) (Operator child) (Value child) None nextLogic
          else ConditionWithLogic [] [] VNil (Some (ConvertToConditionGroup child)) nextLogic)
         # convert_children lg rest)"

section \<open>Evaluation of either form\<close>

text \<open>
  The argument of \<open>EvaluateFlexibleCondition\<close> is an \<open>interface{}\<close>: a tree, a chain, a
  pointer to one of them (nil when \<open>None\<close>), or a value of any other dynamic type, the
  untyped nil among them. Dereferencing a nil pointer panics.
\<close>

datatype 't flexible =
    OfConditions "'t Conditions"
  | OfConditionGroup "'t ConditionGroup"
  | OfConditionsPtr "'t Conditions option"
  | OfConditionGroupPtr "'t ConditionGroup option"
  | OfOther "'t val"

fun EvaluateFlexibleCondition ::
  "'t golib \<Rightarrow> 't registry \<Rightarrow> 't flexible \<Rightarrow> 't data \<Rightarrow> bool option" where
  "EvaluateFlexibleCondition L R (OfConditions cond) data = EvaluateCondition L R cond data"
| "EvaluateFlexibleCondition L R (OfConditionGroup cond) data = EvaluateConditionGroup L R cond data"
| "EvaluateFlexibleCondition L R (OfConditionsPtr cond) data =
     (case cond of None \<Rightarrow> None | Some c \<Rightarrow> EvaluateCondition L R c data)"
| "EvaluateFlexibleCondition L R (OfConditionGroupPtr cond) data =
     (case cond of None \<Rightarrow> None | Some c \<Rightarrow> EvaluateConditionGroup L R c data)"
| "EvaluateFlexibleCondition L R (OfOther x) data = Some False"

section \<open>Evaluation with the effects of validators\<close>

text \<open>
  A validator is a closure: it may keep state, write through the pointers, maps and slices
  it is handed, and register or unregister operators. The evaluators are therefore given
  a second time, with these effects explicit. \<open>'w\<close> is the state of the program. A
  validator takes the state and returns its answer, or \<open>None\<close> when it panics, with the
  state it leaves. The registry and the data record are read from the state where the
  code reads them: \<open>customOperators\<close> when an operator is looked up, \<open>data[key]\<close> at the
  start of a single condition. The order in which reflection yields the keys of a map is
  not specified and may change from one call to the next: \<open>MapKeys w kvs\<close> is the order
  in state \<open>w\<close>. The condition is an argument, handed over by value as in the code.
  Everything else is as before; the evaluators themselves write nothing.
\<close>

type_synonym ('w, 't) world_validator = "'t val \<Rightarrow> 't val \<Rightarrow> 'w \<Rightarrow> bool option \<times> 'w"

type_synonym ('w, 't) world_registry = "'w \<Rightarrow> Operator \<rightharpoonup> ('w, 't) world_validator"

type_synonym ('w, 't) world_data = "'w \<Rightarrow> 't data"

type_synonym ('w, 't) key_order = "'w \<Rightarrow> ('t val \<times> 't val) list \<Rightarrow> 't val list"

text \<open>\<open>isIn\<close>, with the keys of a map in the order of the state.\<close>

fun isIn_st :: "'t golib \<Rightarrow> ('w, 't) key_order \<Rightarrow> 't val \<Rightarrow> 't val \<Rightarrow> 'w \<Rightarrow> bool option" where
  "isIn_st L MapKeys v VNil w = Some False"
| "isIn_st L MapKeys v (VArray xs) w = isIn_loop L v xs"
| "isIn_st L MapKeys v (VSlice xs) w = isIn_loop L v xs"
| "isIn_st L MapKeys v (VMap kvs) w = isIn_loop L v (MapKeys w kvs)"
| "isIn_st L MapKeys v (VString s) w =
     (case toString L v of None \<Rightarrow> None | Some sv \<Rightarrow> Some (Contains s sv))"
| "isIn_st L MapKeys v (VOther u s) w = isIn_st L MapKeys v u w"
| "isIn_st L MapKeys v collection w = Some False"

text \<open>
  The call under the deferred \<open>recover\<close>: a panic gives \<open>false\<close>, and what the validator
  wrote before it panicked stays written.
\<close>

definition call_recovered_st ::
  "('w, 't) world_validator \<Rightarrow> 't val \<Rightarrow> 't val \<Rightarrow> 'w \<Rightarrow> bool option \<times> 'w" where
  "call_recovered_st validator v val w =
     (case validator v val w of
        (None, w') \<Rightarrow> (Some False, w')
      | (Some b, w') \<Rightarrow> (Some b, w'))"

definition evalSingleCondition_st ::
  "'t golib \<Rightarrow> ('w, 't) key_order \<Rightarrow> ('w, 't) world_registry \<Rightarrow> string \<Rightarrow> Operator \<Rightarrow> 't val
    \<Rightarrow> ('w, 't) world_data \<Rightarrow> 'w \<Rightarrow> bool option \<times> 'w" where
  "evalSingleCondition_st L MapKeys customOperators key op val data w =
     (let v = (case data w key of None \<Rightarrow> VNil | Some x \<Rightarrow> x);
          exists = (data w key \<noteq> None)
      in if op = OperatorIsnull then (Some (\<not> exists \<or> v = VNil), w)
         else if op = OperatorIsnotnull then (Some (exists \<and> v \<noteq> VNil), w)
         else if op = OperatorIsEmpty then (Some (isEmpty v), w)
         else if op = OperatorIsNotEmpty then (Some (\<not> isEmpty v), w)
         else if op = OperatorIsTrue then (Some (toBool L v), w)
         else if op = OperatorIsFalse then (Some (\<not> toBool L v), w)
         else if \<not> exists then
           (case customOperators w op of
              Some validator \<Rightarrow> call_recovered_st validator v val w
            | None \<Rightarrow> (Some False, w))
         else if op = OperatorEq then (isEqual L v val, w)
         else if op = OperatorNeq then (map_option Not (isEqual L v val), w)
         else if op = OperatorGt then (map_option (\<lambda>c. c > 0) (compareValues L v val), w)
         else if op = OperatorGte then (map_option (\<lambda>c. c \<ge> 0) (compareValues L v val), w)
         else if op = OperatorLt then (map_option (\<lambda>c. c < 0) (compareValues L v val), w)
         else if op = OperatorLte then (map_option (\<lambda>c. c \<le> 0) (compareValues L v val), w)
         else if op = OperatorIn then (isIn_st L MapKeys v val w, w)
         else if op = OperatorNin then (map_option Not (isIn_st L MapKeys v val w), w)
         else if op = OperatorContains then (contains L v val, w)
         else if op = OperatorNcontains then (map_option Not (contains L v val), w)
         else if op = OperatorLike then (like L v val False, w)
         else if op = OperatorIlike then (like L v val True, w)
         else if op = OperatorNlike then (map_option Not (like L v val False), w)
         else if op = OperatorStartsWith then (startsWith L v val, w)
         else if op = OperatorEndsWith then (endsWith L v val, w)
         else if op = OperatorBetween then (between L v val, w)
         else if op = OperatorNotBetween then (map_option Not (between L v val), w)
         else (case customOperators w op of
                 Some validator \<Rightarrow> call_recovered_st validator v val w
               | None \<Rightarrow> (Some False, w)))"

fun EvaluateCondition_st ::
    "'t golib \<Rightarrow> ('w, 't) key_order \<Rightarrow> ('w, 't) world_registry \<Rightarrow> 't Conditions
      \<Rightarrow> ('w, 't) world_data \<Rightarrow> 'w \<Rightarrow> bool option \<times> 'w"
  and and_children_st ::
    "'t golib \<Rightarrow> ('w, 't) key_order \<Rightarrow> ('w, 't) world_registry \<Rightarrow> 't Conditions list
      \<Rightarrow> ('w, 't) world_data \<Rightarrow> 'w \<Rightarrow> bool option \<times> 'w"
  and or_children_st ::
    "'t golib \<Rightarrow> ('w, 't) key_order \<Rightarrow> ('w, 't) world_registry \<Rightarrow> 't Conditions list
      \<Rightarrow> ('w, 't) world_data \<Rightarrow> 'w \<Rightarrow> bool option \<times> 'w" where
  "EvaluateCondition_st L K R (Conditions lg ch k op v) data w =
     (if lg \<noteq> [] \<and> length ch > 0 \<and> lg = LogicAnd then and_children_st L K R ch data w
      else if lg \<noteq> [] \<and> length ch > 0 \<and> lg = LogicOr then or_children_st L K R ch data w
      else if k \<noteq> [] \<and> op \<noteq> [] then evalSingleCondition_st L K R k op v data w
      else (Some True, w))"
| "and_children_st L K R [] data w = (Some True, w)"
| "and_children_st L K R (child # rest) data w =
     (case EvaluateCondition_st L K R child data w of
        (None, w') \<Rightarrow> (None, w')
      | (Some b, w') \<Rightarrow> if \<not> b then (Some False, w') else and_children_st L K R rest data w')"
| "or_children_st L K R [] data w = (Some False, w)"
| "or_children_st L K R (child # rest) data w =
     (case EvaluateCondition_st L K R child data w of
        (None, w') \<Rightarrow> (None, w')
      | (Some b, w') \<Rightarrow> if b then (Some True, w') else or_children_st L K R rest data w')"

fun EvaluateConditionGroup_st ::
    "'t golib \<Rightarrow> ('w, 't) key_order \<Rightarrow> ('w, 't) world_registry \<Rightarrow> 't ConditionGroup
      \<Rightarrow> ('w, 't) world_data \<Rightarrow> 'w \<Rightarrow> bool option \<times> 'w"
  and chain_loop_st ::
    "'t golib \<Rightarrow> ('w, 't) key_order \<Rightarrow> ('w, 't) world_registry \<Rightarrow> Logic \<Rightarrow> bool
      \<Rightarrow> 't ConditionWithLogic list \<Rightarrow> ('w, 't) world_data \<Rightarrow> 'w \<Rightarrow> bool option \<times> 'w"
  and evaluateConditionWithLogic_st ::
    "'t golib \<Rightarrow> ('w, 't) key_order \<Rightarrow> ('w, 't) world_registry \<Rightarrow> 't ConditionWithLogic
      \<Rightarrow> ('w, 't) world_data \<Rightarrow> 'w \<Rightarrow> bool option \<times> 'w" where
  "EvaluateConditionGroup_st L K R (ConditionGroup []) data w = (Some True, w)"
| "EvaluateConditionGroup_st L K R (ConditionGroup (first # rest)) data w =
     (case evaluateConditionWithLogic_st L K R first data w of
        (None, w') \<Rightarrow> (None, w')
      | (Some result, w') \<Rightarrow> chain_loop_st L K R (NextLogic first) result rest data w')"
| "chain_loop_st L K R prevLogic result [] data w = (Some result, w)"
| "chain_loop_st L K R prevLogic result (cur # rest) data w =
     (case evaluateConditionWithLogic_st L K R cur data w of
        (None, w') \<Rightarrow> (None, w')
      | (Some currentResult, w') \<Rightarrow>
          chain_loop_st L K R (NextLogic cur)
            (if prevLogic = LogicAnd then result \<and> currentResult
             else if prevLogic = LogicOr then result \<or> currentResult
             else result \<and> currentResult)
            rest data w')"
| "evaluateConditionWithLogic_st L K R (ConditionWithLogic k op v g nl) data w =
     (case g of
        Some grp \<Rightarrow> EvaluateConditionGroup_st L K R grp data w
      | None \<Rightarrow> evalSingleCondition_st L K R k op v data w)"


section \<open>Vocabulary of the properties\<close>

text \<open>
  The six operators that \<open>evalSingleCondition\<close> decides before it looks whether the key
  exists, and the full list of the operator constants of the package.
\<close>

definition existence_operators :: "Operator list" where
  "existence_operators =
     [OperatorIsnull, OperatorIsnotnull, OperatorIsEmpty, OperatorIsNotEmpty,
      OperatorIsTrue, OperatorIsFalse]"

definition builtin_operators :: "Operator list" where
  "builtin_operators =
     [OperatorEq, OperatorNeq, OperatorGt, OperatorGte, OperatorLt, OperatorLte,
      OperatorIn, OperatorNin, OperatorContains, OperatorNcontains,
      OperatorIsnull, OperatorIsnotnull, OperatorIsEmpty, OperatorIsNotEmpty,
      OperatorIsTrue, OperatorIsFalse, OperatorLike, OperatorIlike, OperatorNlike,
      OperatorStartsWith, OperatorEndsWith, OperatorBetween, OperatorNotBetween]"

text \<open>
  A value has no panicking \<open>String\<close> method, neither itself nor in its elements; a data
  record, a tree and a chain have none when their values have none.
\<close>

fun no_String_panic :: "'t val \<Rightarrow> bool" where
  "no_String_panic (VOther u s) = (s \<noteq> StringPanics \<and> no_String_panic u)"
| "no_String_panic (VSlice xs) = (\<forall>x\<in>set xs. no_String_panic x)"
| "no_String_panic (VArray xs) = (\<forall>x\<in>set xs. no_String_panic x)"
| "no_String_panic (VMap kvs) =
     (\<forall>kv\<in>set kvs. no_String_panic (fst kv) \<and> no_String_panic (snd kv))"
| "no_String_panic v = True"

definition data_no_panic :: "'t data \<Rightarrow> bool" where
  "data_no_panic d = (\<forall>x\<in>ran d. no_String_panic x)"

fun tree_no_panic :: "'t Conditions \<Rightarrow> bool" where
  "tree_no_panic (Conditions lg ch k op v) =
     (no_String_panic v \<and> (\<forall>c\<in>set ch. tree_no_panic c))"

fun chain_no_panic :: "'t ConditionGroup \<Rightarrow> bool"
  and link_no_panic :: "'t ConditionWithLogic \<Rightarrow> bool" where
  "chain_no_panic (ConditionGroup links) = (\<forall>l\<in>set links. link_no_panic l)"
| "link_no_panic (ConditionWithLogic k op v g nl) =
     (no_String_panic v \<and> (case g of None \<Rightarrow> True | Some grp \<Rightarrow> chain_no_panic grp))"

text \<open>
  The dynamic types that \<open>EvaluateFlexibleCondition\<close> names in its type switch.
\<close>

fun is_condition_type :: "'t flexible \<Rightarrow> bool" where
  "is_condition_type (OfOther x) = False"
| "is_condition_type c = True"


text \<open>
  A small instance of the library parameters, on which the definitions can be run: times
  are integers, \<open>ParseFloat\<close> reads unsigned decimal numerals and nothing else, no
  string parses as a time, \<open>ToLower\<close> leaves its argument as it is and no pattern
  compiles. Three validators: one accepts everything, one accepts a nil field only, one
  panics.
\<close>

fun parse_digits :: "string \<Rightarrow> nat \<Rightarrow> nat option" where
  "parse_digits [] acc = Some acc"
| "parse_digits (c # cs) acc =
     (let n = (of_char c :: nat)
      in if 48 \<le> n \<and> n \<le> 57 then parse_digits cs (10 * acc + (n - 48)) else None)"

definition sample_ParseFloat :: "string \<Rightarrow> float64 option" where
  "sample_ParseFloat s =
     (if s = [] then None else map_option (\<lambda>n. Finite (of_nat n)) (parse_digits s 0))"

definition sample_lib :: "int golib" where
  "sample_lib =
     \<lparr> ParseFloat = sample_ParseFloat,
       float64_of_int = (\<lambda>i. Finite (of_int i)),
       DeepEqual = (\<lambda>v1 v2. v1 = v2),
       Sprint = (\<lambda>v. ''?''),
       time_Parse = (\<lambda>layout s. None),
       time_Unix = (\<lambda>i. i),
       Before = (\<lambda>t u. t < u),
       After = (\<lambda>t u. u < t),
       Time_String = (\<lambda>t. ''t''),
       ToLower = (\<lambda>s. s),
       MatchString = (\<lambda>p s. None) \<rparr>"

definition accept_all :: "int CustomOperatorValidator" where
  "accept_all fieldValue expectedValue = Some True"

definition accept_nil :: "int CustomOperatorValidator" where
  "accept_nil fieldValue expectedValue = Some (fieldValue = VNil)"

definition panicking :: "int CustomOperatorValidator" where
  "panicking fieldValue expectedValue = None"

text \<open>The operators that occur in a tree.\<close>

fun tree_operators :: "'t Conditions \<Rightarrow> Operator set" where
  "tree_operators (Conditions lg ch k op v) = insert op (\<Union>c\<in>set ch. tree_operators c)"

text \<open>
  The chain evaluator as the specification words it: the first link's result, combined
  from left to right with the result of every later link under the \<open>next_logic\<close> of the
  link before it, where anything but \<open>OR\<close> combines as \<open>AND\<close>; an empty chain is true.
\<close>

definition combine_spec :: "Logic \<Rightarrow> bool \<Rightarrow> bool \<Rightarrow> bool" where
  "combine_spec next_logic result current =
     (if next_logic = ''AND'' then result \<and> current
      else if next_logic = ''OR'' then result \<or> current
      else result \<and> current)"

fun chain_fold_spec :: "Logic list \<Rightarrow> bool list \<Rightarrow> bool" where
  "chain_fold_spec logics [] = True"
| "chain_fold_spec logics (r0 # rs) =
     foldl (\<lambda>result (next_logic, current). combine_spec next_logic result current) r0
       (zip logics rs)"

text \<open>
  A well-formed tree: every node is a group with logic \<open>AND\<close> or \<open>OR\<close> and non-empty
  children, all well-formed, or a single condition with non-empty key and operator.
  The struct has the fields of both, so that a node can be a group and carry a key;
  \<open>groups_without_key\<close> holds of the trees where no group does.
\<close>

fun well_formed :: "'t Conditions \<Rightarrow> bool" where
  "well_formed (Conditions lg ch k op v) =
     (((lg = LogicAnd \<or> lg = LogicOr) \<and> ch \<noteq> [] \<and> (\<forall>c\<in>set ch. well_formed c))
      \<or> (k \<noteq> [] \<and> op \<noteq> []))"

fun groups_without_key :: "'t Conditions \<Rightarrow> bool" where
  "groups_without_key (Conditions lg ch k op v) =
     ((lg = LogicAnd \<or> lg = LogicOr) \<and> ch \<noteq> [] \<longrightarrow>
        k = [] \<and> (\<forall>c\<in>set ch. groups_without_key c))"

text \<open>What the link made by \<open>convert_children\<close> from a child evaluates to.\<close>

definition link_result ::
  "'t golib \<Rightarrow> 't registry \<Rightarrow> 't Conditions \<Rightarrow> 't data \<Rightarrow> bool option" where
  "link_result L R c d =
     (if Key c \<noteq> [] then evalSingleCondition L R (Key c) (Operator c) (Value c) d
      else EvaluateConditionGroup L R (ConvertToConditionGroup c) d)"

text \<open>
  A pure validator answers the same in every state and leaves the state as it is. A
  registry is pure in a state when the validators registered there are. \<open>MapKeys\<close>
  yields the keys of the map, whatever the order. \<open>stateless w f\<close> is the function of
  two arguments that a pure validator \<open>f\<close> computes, \<open>registry_at R w\<close> the registry of
  these functions. An observation of the state is left alone by a registry when no
  validator registered in any state changes it.
\<close>

definition pure_validator :: "('w, 't) world_validator \<Rightarrow> bool" where
  "pure_validator f = (\<forall>a b w w'. fst (f a b w) = fst (f a b w') \<and> snd (f a b w) = w)"

definition registry_pure :: "('w, 't) world_registry \<Rightarrow> 'w \<Rightarrow> bool" where
  "registry_pure R w = (\<forall>op f. R w op = Some f \<longrightarrow> pure_validator f)"

definition yields_all_keys :: "('w, 't) key_order \<Rightarrow> bool" where
  "yields_all_keys K = (\<forall>w kvs. set (K w kvs) = fst ` set kvs)"

definition stateless :: "'w \<Rightarrow> ('w, 't) world_validator \<Rightarrow> 't CustomOperatorValidator" where
  "stateless w f = (\<lambda>a b. fst (f a b w))"

definition registry_at :: "('w, 't) world_registry \<Rightarrow> 'w \<Rightarrow> 't registry" where
  "registry_at R w = (\<lambda>op. map_option (stateless w) (R w op))"

definition leaves_alone :: "('w, 't) world_registry \<Rightarrow> ('w \<Rightarrow> 'o) \<Rightarrow> bool" where
  "leaves_alone R obs = (\<forall>w op f a b. R w op = Some f \<longrightarrow> obs (snd (f a b w)) = obs w)"

text \<open>
  The chain evaluator as the specification words it, in full: a link is a single
  condition, evaluated by the single-condition evaluator, or a nested chain, evaluated
  by the same algorithm; the results of all links are folded from the left.
\<close>

fun chain_spec ::
    "'t golib \<Rightarrow> 't registry \<Rightarrow> 't ConditionGroup \<Rightarrow> 't data \<Rightarrow> bool option"
  and link_spec ::
    "'t golib \<Rightarrow> 't registry \<Rightarrow> 't ConditionWithLogic \<Rightarrow> 't data \<Rightarrow> bool option" where
  "chain_spec L R (ConditionGroup links) d =
     map_option (chain_fold_spec (map NextLogic links))
       (those (map (\<lambda>link. link_spec L R link d) links))"
| "link_spec L R (ConditionWithLogic k op v g nl) d =
     (case g of
        None \<Rightarrow> evalSingleCondition L R k op v d
      | Some sub_chain \<Rightarrow> chain_spec L R sub_chain d)"

text \<open>
  The sign of the difference of two floats, where the difference has one: with a NaN,
  and for two infinities of the same sign, the difference is a NaN and has none.
\<close>

fun difference_sign :: "float64 \<Rightarrow> float64 \<Rightarrow> int option" where
  "difference_sign NaN y = None"
| "difference_sign x NaN = None"
| "difference_sign PosInf PosInf = None"
| "difference_sign NegInf NegInf = None"
| "difference_sign PosInf y = Some 1"
| "difference_sign NegInf y = Some (- 1)"
| "difference_sign (Finite a) PosInf = Some (- 1)"
| "difference_sign (Finite a) NegInf = Some 1"
| "difference_sign (Finite a) (Finite b) = Some (if a < b then - 1 else if b < a then 1 else 0)"

text \<open>
  A small program state on which the evaluators with effects can be run: a counter of
  calls, the data record, and whether maps yield their keys in reverse. \<open>toggle\<close>
  counts its calls and answers true on every other one; \<open>scribble\<close> writes into the data
  record; \<open>lifted g\<close> is the pure validator that computes \<open>g\<close>.
\<close>

record world =
  calls :: nat
  stored :: "int data"
  reversed :: bool

definition toggle :: "(world, int) world_validator" where
  "toggle fieldValue expectedValue w = (Some (even (calls w)), w\<lparr>calls := Suc (calls w)\<rparr>)"

definition scribble :: "(world, int) world_validator" where
  "scribble fieldValue expectedValue w =
     (Some True, w\<lparr>stored := (stored w)(''seen'' \<mapsto> VBool True)\<rparr>)"

definition lifted :: "int CustomOperatorValidator \<Rightarrow> (world, int) world_validator" where
  "lifted g fieldValue expectedValue w = (g fieldValue expectedValue, w)"

definition stateful_registry :: "(world, int) world_registry" where
  "stateful_registry w = [''toggle'' \<mapsto> toggle, ''scribble'' \<mapsto> scribble]"

definition counting_registry :: "(world, int) world_registry" where
  "counting_registry w = [''toggle'' \<mapsto> toggle]"

definition pure_registry :: "(world, int) world_registry" where
  "pure_registry w = [''iequal'' \<mapsto> lifted accept_all, ''boom'' \<mapsto> lifted panicking]"

definition sample_keys :: "(world, int) key_order" where
  "sample_keys w kvs = (if reversed w then rev (map fst kvs) else map fst kvs)"

section \<open>Properties\<close>

lemmas Operator_defs =
  OperatorEq_def OperatorNeq_def OperatorGt_def OperatorGte_def OperatorLt_def
  OperatorLte_def OperatorIn_def OperatorNin_def OperatorContains_def
  OperatorNcontains_def OperatorIsnull_def OperatorIsnotnull_def OperatorIsEmpty_def
  OperatorIsNotEmpty_def OperatorIsTrue_def OperatorIsFalse_def OperatorLike_def
  OperatorIlike_def OperatorNlike_def OperatorStartsWith_def OperatorEndsWith_def
  OperatorBetween_def OperatorNotBetween_def

subsection \<open>Equations of the single-condition evaluator\<close>

lemma evalSingleCondition_custom:
  "op \<notin> set builtin_operators \<Longrightarrow>
   evalSingleCondition L R k op v d =
     (case R op of
        Some validator \<Rightarrow>
          Some (call_recovered validator (case d k of None \<Rightarrow> VNil | Some x \<Rightarrow> x) v)
      | None \<Rightarrow> Some False)"
  by (simp add: evalSingleCondition_def builtin_operators_def Let_def)

lemma evalSingleCondition_present:
  assumes "d k = Some x"
  shows "evalSingleCondition L R k OperatorEq v d = isEqual L x v"
    and "evalSingleCondition L R k OperatorNeq v d = map_option Not (isEqual L x v)"
    and "evalSingleCondition L R k OperatorGt v d = map_option (\<lambda>c. c > 0) (compareValues L x v)"
    and "evalSingleCondition L R k OperatorGte v d = map_option (\<lambda>c. c \<ge> 0) (compareValues L x v)"
    and "evalSingleCondition L R k OperatorLt v d = map_option (\<lambda>c. c < 0) (compareValues L x v)"
    and "evalSingleCondition L R k OperatorLte v d = map_option (\<lambda>c. c \<le> 0) (compareValues L x v)"
    and "evalSingleCondition L R k OperatorIn v d = isIn L x v"
    and "evalSingleCondition L R k OperatorNin v d = map_option Not (isIn L x v)"
    and "evalSingleCondition L R k OperatorContains v d = contains L x v"
    and "evalSingleCondition L R k OperatorNcontains v d = map_option Not (contains L x v)"
    and "evalSingleCondition L R k OperatorLike v d = like L x v False"
    and "evalSingleCondition L R k OperatorIlike v d = like L x v True"
    and "evalSingleCondition L R k OperatorNlike v d = map_option Not (like L x v False)"
    and "evalSingleCondition L R k OperatorStartsWith v d = startsWith L x v"
    and "evalSingleCondition L R k OperatorEndsWith v d = endsWith L x v"
    and "evalSingleCondition L R k OperatorBetween v d = between L x v"
    and "evalSingleCondition L R k OperatorNotBetween v d = map_option Not (between L x v)"
  using assms by (simp_all add: evalSingleCondition_def Operator_defs)

lemma evalSingleCondition_state:
  shows "evalSingleCondition L R k OperatorIsnull v d = Some (d k = None \<or> d k = Some VNil)"
    and "evalSingleCondition L R k OperatorIsnotnull v d = Some (d k \<noteq> None \<and> d k \<noteq> Some VNil)"
    and "evalSingleCondition L R k OperatorIsEmpty v d =
           Some (isEmpty (case d k of None \<Rightarrow> VNil | Some x \<Rightarrow> x))"
    and "evalSingleCondition L R k OperatorIsNotEmpty v d =
           Some (\<not> isEmpty (case d k of None \<Rightarrow> VNil | Some x \<Rightarrow> x))"
    and "evalSingleCondition L R k OperatorIsTrue v d =
           Some (toBool L (case d k of None \<Rightarrow> VNil | Some x \<Rightarrow> x))"
    and "evalSingleCondition L R k OperatorIsFalse v d =
           Some (\<not> toBool L (case d k of None \<Rightarrow> VNil | Some x \<Rightarrow> x))"
  by (auto simp add: evalSingleCondition_def Operator_defs split: option.splits)

lemma evalSingleCondition_absent:
  assumes "d k = None" and "op \<notin> set existence_operators"
  shows "evalSingleCondition L R k op v d =
     (case R op of
        Some validator \<Rightarrow> Some (call_recovered validator VNil v)
      | None \<Rightarrow> Some False)"
  using assms by (simp add: evalSingleCondition_def existence_operators_def Let_def)

subsection \<open>Absent keys\<close>

text \<open>
  C6. When the key is not in the data record, the six existence and state operators are
  still decided, on a nil field value: \<open>isnull\<close>, \<open>isempty\<close> and \<open>isfalse\<close> hold,
  \<open>isnotnull\<close>, \<open>isnotempty\<close> and \<open>istrue\<close> do not. For every other operator the
  registry is asked: a validator registered under the operator is called with a nil
  field value and the value of the condition, and what it returns is the result; with no
  validator the result is false.
\<close>

theorem absent_key_semantics:
  assumes "d k = None"
  shows "evalSingleCondition L R k OperatorIsnull v d = Some True
     \<and> evalSingleCondition L R k OperatorIsnotnull v d = Some False
     \<and> evalSingleCondition L R k OperatorIsEmpty v d = Some True
     \<and> evalSingleCondition L R k OperatorIsNotEmpty v d = Some False
     \<and> evalSingleCondition L R k OperatorIsTrue v d = Some False
     \<and> evalSingleCondition L R k OperatorIsFalse v d = Some True
     \<and> (op \<notin> set existence_operators \<longrightarrow>
          (case R op of
             Some validator \<Rightarrow>
               evalSingleCondition L R k op v d = Some (call_recovered validator VNil v)
               \<and> (\<forall>b. validator VNil v = Some b \<longrightarrow>
                     evalSingleCondition L R k op v d = Some b)
           | None \<Rightarrow> evalSingleCondition L R k op v d = Some False))"
  using assms
  by (auto simp: evalSingleCondition_state evalSingleCondition_absent call_recovered_def
      split: option.splits)

theorem absent_key_semantics_witness:
  "[''country'' \<mapsto> VString ''TH''] ''age'' = None
   \<and> evalSingleCondition sample_lib [''only_nil'' \<mapsto> accept_nil] ''age'' OperatorIsnull (VInt 1)
        [''country'' \<mapsto> VString ''TH''] = Some True
   \<and> evalSingleCondition sample_lib [''only_nil'' \<mapsto> accept_nil] ''age'' OperatorIsnotnull (VInt 1)
        [''country'' \<mapsto> VString ''TH''] = Some False
   \<and> evalSingleCondition sample_lib [''only_nil'' \<mapsto> accept_nil] ''age'' ''only_nil'' (VInt 1)
        [''country'' \<mapsto> VString ''TH''] = Some True
   \<and> evalSingleCondition sample_lib [''only_nil'' \<mapsto> accept_nil] ''age'' OperatorGt (VInt 1)
        [''country'' \<mapsto> VString ''TH''] = Some False"
proof -
  have absent: "[''country'' \<mapsto> VString ''TH''] ''age'' = (None :: int val option)"
    by simp
  have custom: "''only_nil'' \<notin> set existence_operators"
    and builtin: "OperatorGt \<notin> set existence_operators"
    by (simp_all add: existence_operators_def Operator_defs)
  show ?thesis
    using absent custom builtin
      absent_key_semantics [where d = "[''country'' \<mapsto> VString ''TH'']" and k = "''age''"
          and L = sample_lib and R = "[''only_nil'' \<mapsto> accept_nil]" and v = "VInt 1"
          and op = "''only_nil''", OF absent]
      absent_key_semantics [where d = "[''country'' \<mapsto> VString ''TH'']" and k = "''age''"
          and L = sample_lib and R = "[''only_nil'' \<mapsto> accept_nil]" and v = "VInt 1"
          and op = OperatorGt, OF absent]
    by (simp add: accept_nil_def call_recovered_def Operator_defs)
qed

subsection \<open>Degenerate nodes\<close>

text \<open>
  C8. A node that is neither a group (logic set and children non-empty) nor a single
  condition (key and operator both non-empty) evaluates to true, on every data record.
\<close>

theorem degenerate_node_true:
  assumes "\<not> (Logic cond \<noteq> [] \<and> Children cond \<noteq> [])"
    and "\<not> (Key cond \<noteq> [] \<and> Operator cond \<noteq> [])"
  shows "EvaluateCondition L R cond d = Some True"
  using assms by (cases cond) auto

theorem degenerate_node_true_witness:
  "\<not> (Logic (Conditions ''AND'' [] ''age'' [] (VInt 18) :: int Conditions) \<noteq> []
       \<and> Children (Conditions ''AND'' [] ''age'' [] (VInt 18) :: int Conditions) \<noteq> [])
   \<and> \<not> (Key (Conditions ''AND'' [] ''age'' [] (VInt 18) :: int Conditions) \<noteq> []
       \<and> Operator (Conditions ''AND'' [] ''age'' [] (VInt 18) :: int Conditions) \<noteq> [])
   \<and> EvaluateCondition sample_lib Map.empty (Conditions ''AND'' [] ''age'' [] (VInt 18))
        [''age'' \<mapsto> VInt 25] = Some True"
proof -
  have no_group: "\<not> (Logic (Conditions ''AND'' [] ''age'' [] (VInt 18) :: int Conditions) \<noteq> []
      \<and> Children (Conditions ''AND'' [] ''age'' [] (VInt 18) :: int Conditions) \<noteq> [])"
    by simp
  have no_leaf: "\<not> (Key (Conditions ''AND'' [] ''age'' [] (VInt 18) :: int Conditions) \<noteq> []
      \<and> Operator (Conditions ''AND'' [] ''age'' [] (VInt 18) :: int Conditions) \<noteq> [])"
    by simp
  show ?thesis
    using no_group no_leaf
      degenerate_node_true [OF no_group no_leaf, where L = sample_lib and R = Map.empty
          and d = "[''age'' \<mapsto> VInt 25]"]
    by blast
qed

subsection \<open>Arguments of another dynamic type\<close>

text \<open>
  C10. \<open>EvaluateFlexibleCondition\<close> returns false, without panicking, whenever the
  dynamic type of its argument is none of \<open>Conditions\<close>, \<open>*Conditions\<close>,
  \<open>ConditionGroup\<close> and \<open>*ConditionGroup\<close>: such an argument is never taken for a
  degenerate node, which would be true.
\<close>

theorem flexible_other_type_false:
  assumes "\<not> is_condition_type c"
  shows "EvaluateFlexibleCondition L R c d = Some False"
  using assms by (cases c) auto

theorem flexible_other_type_false_witness:
  "\<not> is_condition_type (OfOther VNil :: int flexible)
   \<and> \<not> is_condition_type (OfOther (VString ''age > 18'') :: int flexible)
   \<and> \<not> is_condition_type (OfOther (VMap [(VString ''key'', VString ''age'')]) :: int flexible)
   \<and> EvaluateFlexibleCondition sample_lib Map.empty (OfOther VNil) Map.empty = Some False
   \<and> EvaluateFlexibleCondition sample_lib Map.empty (OfOther (VString ''age > 18'')) Map.empty
       = Some False
   \<and> EvaluateFlexibleCondition sample_lib Map.empty
       (OfOther (VMap [(VString ''key'', VString ''age'')])) Map.empty = Some False"
proof -
  have nil: "\<not> is_condition_type (OfOther VNil :: int flexible)"
    and str: "\<not> is_condition_type (OfOther (VString ''age > 18'') :: int flexible)"
    and map: "\<not> is_condition_type (OfOther (VMap [(VString ''key'', VString ''age'')]) :: int flexible)"
    by simp_all
  show ?thesis
    using nil str map
      flexible_other_type_false [OF nil, where L = sample_lib and R = Map.empty and d = Map.empty]
      flexible_other_type_false [OF str, where L = sample_lib and R = Map.empty and d = Map.empty]
      flexible_other_type_false [OF map, where L = sample_lib and R = Map.empty and d = Map.empty]
    by blast
qed

subsection \<open>Evaluation returns when no \<open>String\<close> method panics\<close>

lemma toString_returns: "no_String_panic v \<Longrightarrow> toString L v \<noteq> None"
  by (cases "(L, v)" rule: toString.cases) auto

lemma equal_strings_returns:
  "no_String_panic v1 \<Longrightarrow> no_String_panic v2 \<Longrightarrow> equal_strings L v1 v2 \<noteq> None"
  using toString_returns [of v1 L] toString_returns [of v2 L]
  by (auto simp: equal_strings_def)

lemma compare_strings_returns:
  "no_String_panic v1 \<Longrightarrow> no_String_panic v2 \<Longrightarrow> compare_strings L v1 v2 \<noteq> None"
  using toString_returns [of v1 L] toString_returns [of v2 L]
  by (auto simp: compare_strings_def)

lemma isEqual_returns:
  "no_String_panic v1 \<Longrightarrow> no_String_panic v2 \<Longrightarrow> isEqual L v1 v2 \<noteq> None"
  using equal_strings_returns [of v1 v2 L]
  by (auto simp: isEqual_def split: option.splits)

lemma compareValues_returns:
  "no_String_panic v1 \<Longrightarrow> no_String_panic v2 \<Longrightarrow> compareValues L v1 v2 \<noteq> None"
  using compare_strings_returns [of v1 v2 L]
  by (auto simp: compareValues_def compare_times_def split: option.splits)

lemma isIn_loop_returns:
  "no_String_panic v \<Longrightarrow> \<forall>x\<in>set xs. no_String_panic x \<Longrightarrow> isIn_loop L v xs \<noteq> None"
proof (induction xs)
  case Nil
  then show ?case by simp
next
  case (Cons x xs)
  then obtain b where "isEqual L v x = Some b"
    using isEqual_returns [of v x L] by auto
  with Cons show ?case by (cases b) auto
qed

lemma isIn_returns:
  "no_String_panic v \<Longrightarrow> no_String_panic c \<Longrightarrow> isIn L v c \<noteq> None"
proof (induction L v c rule: isIn.induct)
  case (4 L v kvs)
  then have "\<forall>x\<in>set (map fst kvs). no_String_panic x" by auto
  with 4 show ?case using isIn_loop_returns [of v "map fst kvs" L] by simp
next
  case (5 L v s)
  then show ?case using toString_returns [of v L] by auto
qed (simp_all add: isIn_loop_returns del: not_None_eq)

lemma slice_elems_no_panic:
  "no_String_panic b \<Longrightarrow> slice_elems b = Some xs \<Longrightarrow> \<forall>x\<in>set xs. no_String_panic x"
  by (induction b rule: slice_elems.induct) auto

lemma between_returns:
  assumes "no_String_panic v" and "no_String_panic b"
  shows "between L v b \<noteq> None"
proof (cases "slice_elems b")
  case None
  then show ?thesis by (simp add: between_def del: not_None_eq)
next
  case (Some xs)
  show ?thesis
  proof (cases "\<exists>lo hi. xs = [lo, hi]")
    case True
    then obtain lo hi where xs: "xs = [lo, hi]" by blast
    with Some assms(2) have "no_String_panic lo" "no_String_panic hi"
      using slice_elems_no_panic [of b xs] by auto
    then obtain c1 c2 where "compareValues L v lo = Some c1" "compareValues L v hi = Some c2"
      using compareValues_returns [of v _ L] assms(1) by blast
    with Some xs show ?thesis by (simp add: between_def del: not_None_eq)
  next
    case False
    with Some show ?thesis
      by (simp add: between_def del: not_None_eq split: list.splits)
  qed
qed

lemma contains_returns:
  "no_String_panic v1 \<Longrightarrow> no_String_panic v2 \<Longrightarrow> contains L v1 v2 \<noteq> None"
  using toString_returns [of v1 L] toString_returns [of v2 L]
  by (auto simp: contains_def)

lemma like_returns:
  "no_String_panic v1 \<Longrightarrow> no_String_panic v2 \<Longrightarrow> like L v1 v2 ci \<noteq> None"
  using toString_returns [of v1 L] toString_returns [of v2 L]
  by (auto simp: like_def Let_def split: option.splits)

lemma startsWith_returns:
  "no_String_panic v1 \<Longrightarrow> no_String_panic v2 \<Longrightarrow> startsWith L v1 v2 \<noteq> None"
  using toString_returns [of v1 L] toString_returns [of v2 L]
  by (auto simp: startsWith_def)

lemma endsWith_returns:
  "no_String_panic v1 \<Longrightarrow> no_String_panic v2 \<Longrightarrow> endsWith L v1 v2 \<noteq> None"
  using toString_returns [of v1 L] toString_returns [of v2 L]
  by (auto simp: endsWith_def)

lemma evalSingleCondition_returns:
  assumes "data_no_panic d" and "no_String_panic v"
  shows "evalSingleCondition L R k op v d \<noteq> None"
proof (cases "op \<in> set existence_operators")
  case True
  then show ?thesis
    using evalSingleCondition_state [of L R k v d]
    by (auto simp: existence_operators_def)
next
  case not_state: False
  show ?thesis
  proof (cases "d k")
    case None
    with not_state show ?thesis
      by (simp add: evalSingleCondition_absent del: not_None_eq split: option.split)
  next
    case (Some x)
    then have x: "no_String_panic x"
      using assms(1) by (auto simp: data_no_panic_def ran_def)
    note r = isEqual_returns [OF x assms(2), of L] compareValues_returns [OF x assms(2), of L]
      isIn_returns [OF x assms(2), of L] contains_returns [OF x assms(2), of L]
      like_returns [OF x assms(2), of L False] like_returns [OF x assms(2), of L True]
      startsWith_returns [OF x assms(2), of L]
      endsWith_returns [OF x assms(2), of L] between_returns [OF x assms(2), of L]
    show ?thesis
    proof (cases "op \<in> set builtin_operators")
      case False
      then show ?thesis
        by (simp add: evalSingleCondition_custom del: not_None_eq split: option.split)
    next
      case True
      with not_state have "op \<in> {OperatorEq, OperatorNeq, OperatorGt, OperatorGte, OperatorLt,
          OperatorLte, OperatorIn, OperatorNin, OperatorContains, OperatorNcontains,
          OperatorLike, OperatorIlike, OperatorNlike, OperatorStartsWith, OperatorEndsWith,
          OperatorBetween, OperatorNotBetween}"
        by (auto simp: builtin_operators_def existence_operators_def)
      then show ?thesis
        using r by (auto simp: evalSingleCondition_present [where d = d and k = k, OF Some] simp del: not_None_eq)
    qed
  qed
qed

lemma tree_returns:
  shows "data_no_panic d \<Longrightarrow> tree_no_panic t \<Longrightarrow> EvaluateCondition L R t d \<noteq> None"
    and "data_no_panic d \<Longrightarrow> \<forall>c\<in>set cs. tree_no_panic c \<Longrightarrow> and_children L R cs d \<noteq> None"
    and "data_no_panic d \<Longrightarrow> \<forall>c\<in>set cs. tree_no_panic c \<Longrightarrow> or_children L R cs d \<noteq> None"
proof (induction L R t d and L R cs d and L R cs d rule: EvaluateCondition_and_children_or_children.induct)
  case (1 L R lg ch k op v data)
  then show ?case
    by (auto simp: evalSingleCondition_returns LogicAnd_def LogicOr_def simp del: not_None_eq)
next
  case (2 L R data)
  then show ?case by simp
next
  case (3 L R child rest data)
  then show ?case by (simp del: not_None_eq split: option.split)
next
  case (4 L R data)
  then show ?case by simp
next
  case (5 L R child rest data)
  then show ?case by (simp del: not_None_eq split: option.split)
qed

lemma chain_returns:
  shows "data_no_panic d \<Longrightarrow> chain_no_panic g \<Longrightarrow> EvaluateConditionGroup L R g d \<noteq> None"
    and "data_no_panic d \<Longrightarrow> \<forall>l\<in>set ls. link_no_panic l \<Longrightarrow> chain_loop L R pl res ls d \<noteq> None"
    and "data_no_panic d \<Longrightarrow> link_no_panic l \<Longrightarrow> evaluateConditionWithLogic L R l d \<noteq> None"
proof (induction L R g d and L R pl res ls d and L R l d
    rule: EvaluateConditionGroup_chain_loop_evaluateConditionWithLogic.induct)
  case (1 L R data)
  then show ?case by simp
next
  case (2 L R first rest data)
  then show ?case by (simp del: not_None_eq split: option.split)
next
  case (3 L R prevLogic result data)
  then show ?case by simp
next
  case (4 L R prevLogic result cur rest data)
  then show ?case by (simp del: not_None_eq split: option.split)
next
  case (5 L R k op v g nl data)
  then show ?case
    by (auto simp: evalSingleCondition_returns simp del: not_None_eq split: option.splits)
qed

subsection \<open>Panics\<close>




subsection \<open>Built-in operators and the registry\<close>

lemma builtin_independent_of_registry:
  assumes "op \<in> set builtin_operators"
    and "d k \<noteq> None \<or> op \<in> set existence_operators"
  shows "evalSingleCondition L R k op v d = evalSingleCondition L R' k op v d"
proof (cases "op \<in> set existence_operators")
  case True
  then show ?thesis
    by (auto simp: existence_operators_def evalSingleCondition_state)
next
  case False
  with assms(2) obtain x where x: "d k = Some x" by auto
  from False assms(1) have "op \<in> {OperatorEq, OperatorNeq, OperatorGt, OperatorGte, OperatorLt,
      OperatorLte, OperatorIn, OperatorNin, OperatorContains, OperatorNcontains,
      OperatorLike, OperatorIlike, OperatorNlike, OperatorStartsWith, OperatorEndsWith,
      OperatorBetween, OperatorNotBetween}"
    by (auto simp: builtin_operators_def existence_operators_def)
  then show ?thesis
    by (auto simp: evalSingleCondition_present [where d = d and k = k, OF x])
qed

text \<open>
  C2. \<open>RegisterCustomOperator\<close> stores a validator under any identifier, the built-in
  ones included. For a condition whose operator is built-in and whose key is in the
  data record, or whose operator is one of the six existence and state operators, the
  result is the same under every registry: no registration or removal changes it.
\<close>

theorem builtin_unaffected_by_registry:
  "RegisterCustomOperator op' (Some f) R = Some (R(op' \<mapsto> f))
   \<and> (op \<in> set builtin_operators \<and> (d k \<noteq> None \<or> op \<in> set existence_operators) \<longrightarrow>
        evalSingleCondition L R k op v d = evalSingleCondition L R' k op v d)"
  using builtin_independent_of_registry [of op d k L R v R']
  by (simp add: RegisterCustomOperator_def)

theorem builtin_unaffected_by_registry_witness:
  "RegisterCustomOperator OperatorEq (Some accept_nil) Map.empty = Some [OperatorEq \<mapsto> accept_nil]
   \<and> OperatorEq \<in> set builtin_operators
   \<and> [''age'' \<mapsto> VInt 25] ''age'' \<noteq> None
   \<and> evalSingleCondition sample_lib [OperatorEq \<mapsto> accept_nil] ''age'' OperatorEq (VInt 25)
        [''age'' \<mapsto> VInt 25] = Some True
   \<and> evalSingleCondition sample_lib Map.empty ''age'' OperatorEq (VInt 25)
        [''age'' \<mapsto> VInt 25] = Some True"
proof -
  have hyps: "OperatorEq \<in> set builtin_operators"
    "[''age'' \<mapsto> VInt 25] ''age'' \<noteq> (None :: int val option)"
    by (simp_all add: builtin_operators_def)
  show ?thesis
    using hyps
      builtin_unaffected_by_registry [where op' = OperatorEq and f = accept_nil
          and R = Map.empty and op = OperatorEq and d = "[''age'' \<mapsto> VInt 25]"
          and k = "''age''" and L = sample_lib and v = "VInt 25"
          and R' = "[OperatorEq \<mapsto> accept_nil]"]
    by (simp add: evalSingleCondition_def Operator_defs isEqual_def sample_lib_def)
qed

text \<open>
  As C2 is worded it fails: a built-in identifier can be registered, and when the key is
  absent a validator registered under \<open>==\<close> is called and decides the condition, which
  is false under the empty registry.
\<close>

theorem builtin_overridden_counterexample:
  "OperatorEq \<in> set builtin_operators
   \<and> RegisterCustomOperator OperatorEq (Some accept_all) Map.empty = Some [OperatorEq \<mapsto> accept_all]
   \<and> [OperatorEq \<mapsto> accept_all] OperatorEq = Some accept_all
   \<and> evalSingleCondition sample_lib [OperatorEq \<mapsto> accept_all] ''age'' OperatorEq (VInt 25)
        [''country'' \<mapsto> VString ''TH''] = Some True
   \<and> evalSingleCondition sample_lib Map.empty ''age'' OperatorEq (VInt 25)
        [''country'' \<mapsto> VString ''TH''] = Some False"
  by (simp add: builtin_operators_def RegisterCustomOperator_def evalSingleCondition_def
      Operator_defs call_recovered_def accept_all_def)

subsection \<open>Evaluation with effects, for pure validators and in general\<close>

lemma isIn_loop_any:
  "no_String_panic v \<Longrightarrow> \<forall>x\<in>set xs. no_String_panic x \<Longrightarrow>
   isIn_loop L v xs = Some (\<exists>x\<in>set xs. isEqual L v x = Some True)"
proof (induction xs)
  case Nil
  then show ?case by simp
next
  case (Cons x xs)
  then obtain b where "isEqual L v x = Some b"
    using isEqual_returns [of v x L] by auto
  with Cons show ?case by (cases b) auto
qed

lemma isIn_st_isIn:
  "yields_all_keys K \<Longrightarrow> no_String_panic v \<Longrightarrow> no_String_panic c \<Longrightarrow>
   isIn_st L K v c w = isIn L v c"
proof (induction L K v c w rule: isIn_st.induct)
  case (4 L K v kvs w)
  then have a: "\<forall>x\<in>set (map fst kvs). no_String_panic x"
    and b: "\<forall>x\<in>set (K w kvs). no_String_panic x"
    by (auto simp: yields_all_keys_def)
  from 4 have "set (K w kvs) = set (map fst kvs)"
    by (simp add: yields_all_keys_def)
  then show ?case
    using isIn_loop_any [OF 4(2) a, of L] isIn_loop_any [OF 4(2) b, of L] by simp
qed simp_all

lemma evalSingleCondition_st_custom:
  "op \<notin> set builtin_operators \<Longrightarrow>
   evalSingleCondition_st L K R k op v d w =
     (case R w op of
        Some validator \<Rightarrow>
          call_recovered_st validator (case d w k of None \<Rightarrow> VNil | Some x \<Rightarrow> x) v w
      | None \<Rightarrow> (Some False, w))"
  by (simp add: evalSingleCondition_st_def builtin_operators_def Let_def)

lemma evalSingleCondition_st_present:
  assumes "d w k = Some x"
  shows "evalSingleCondition_st L K R k OperatorEq v d w = (isEqual L x v, w)"
    and "evalSingleCondition_st L K R k OperatorNeq v d w = (map_option Not (isEqual L x v), w)"
    and "evalSingleCondition_st L K R k OperatorGt v d w = (map_option (\<lambda>c. c > 0) (compareValues L x v), w)"
    and "evalSingleCondition_st L K R k OperatorGte v d w = (map_option (\<lambda>c. c \<ge> 0) (compareValues L x v), w)"
    and "evalSingleCondition_st L K R k OperatorLt v d w = (map_option (\<lambda>c. c < 0) (compareValues L x v), w)"
    and "evalSingleCondition_st L K R k OperatorLte v d w = (map_option (\<lambda>c. c \<le> 0) (compareValues L x v), w)"
    and "evalSingleCondition_st L K R k OperatorIn v d w = (isIn_st L K x v w, w)"
    and "evalSingleCondition_st L K R k OperatorNin v d w = (map_option Not (isIn_st L K x v w), w)"
    and "evalSingleCondition_st L K R k OperatorContains v d w = (contains L x v, w)"
    and "evalSingleCondition_st L K R k OperatorNcontains v d w = (map_option Not (contains L x v), w)"
    and "evalSingleCondition_st L K R k OperatorLike v d w = (like L x v False, w)"
    and "evalSingleCondition_st L K R k OperatorIlike v d w = (like L x v True, w)"
    and "evalSingleCondition_st L K R k OperatorNlike v d w = (map_option Not (like L x v False), w)"
    and "evalSingleCondition_st L K R k OperatorStartsWith v d w = (startsWith L x v, w)"
    and "evalSingleCondition_st L K R k OperatorEndsWith v d w = (endsWith L x v, w)"
    and "evalSingleCondition_st L K R k OperatorBetween v d w = (between L x v, w)"
    and "evalSingleCondition_st L K R k OperatorNotBetween v d w = (map_option Not (between L x v), w)"
  using assms by (simp_all add: evalSingleCondition_st_def Operator_defs)

lemma evalSingleCondition_st_state_eqs:
  shows "evalSingleCondition_st L K R k OperatorIsnull v d w =
           (Some (d w k = None \<or> d w k = Some VNil), w)"
    and "evalSingleCondition_st L K R k OperatorIsnotnull v d w =
           (Some (d w k \<noteq> None \<and> d w k \<noteq> Some VNil), w)"
    and "evalSingleCondition_st L K R k OperatorIsEmpty v d w =
           (Some (isEmpty (case d w k of None \<Rightarrow> VNil | Some x \<Rightarrow> x)), w)"
    and "evalSingleCondition_st L K R k OperatorIsNotEmpty v d w =
           (Some (\<not> isEmpty (case d w k of None \<Rightarrow> VNil | Some x \<Rightarrow> x)), w)"
    and "evalSingleCondition_st L K R k OperatorIsTrue v d w =
           (Some (toBool L (case d w k of None \<Rightarrow> VNil | Some x \<Rightarrow> x)), w)"
    and "evalSingleCondition_st L K R k OperatorIsFalse v d w =
           (Some (\<not> toBool L (case d w k of None \<Rightarrow> VNil | Some x \<Rightarrow> x)), w)"
  by (auto simp add: evalSingleCondition_st_def Operator_defs split: option.splits)

lemma evalSingleCondition_st_state:
  "op \<in> set existence_operators \<Longrightarrow>
   evalSingleCondition_st L K R k op v d w = (evalSingleCondition L R' k op v (d w), w)"
  by (auto simp: existence_operators_def evalSingleCondition_state
      evalSingleCondition_st_state_eqs)

lemma evalSingleCondition_st_absent:
  assumes "d w k = None" and "op \<notin> set existence_operators"
  shows "evalSingleCondition_st L K R k op v d w =
     (case R w op of
        Some validator \<Rightarrow> call_recovered_st validator VNil v w
      | None \<Rightarrow> (Some False, w))"
  using assms by (simp add: evalSingleCondition_st_def existence_operators_def Let_def)

lemma call_recovered_st_pure:
  assumes "pure_validator f"
  shows "call_recovered_st f a b w = (Some (call_recovered (stateless w f) a b), w)"
proof -
  from assms have "snd (f a b w) = w"
    by (simp add: pure_validator_def)
  then obtain r where "f a b w = (r, w)"
    by (cases "f a b w") auto
  then show ?thesis
    by (cases r) (simp_all add: call_recovered_st_def call_recovered_def stateless_def)
qed


lemma leaf_st_pure:
  assumes keys: "yields_all_keys K"
    and pure: "registry_pure R w"
    and d: "data_no_panic (d w)"
    and v: "no_String_panic v"
  shows "evalSingleCondition_st L K R k op v d w =
     (evalSingleCondition L (registry_at R w) k op v (d w), w)"
proof (cases "op \<in> set existence_operators")
  case True
  then show ?thesis by (rule evalSingleCondition_st_state)
next
  case not_state: False
  have reg: "(case R w op of
        Some validator \<Rightarrow> call_recovered_st validator x v w
      | None \<Rightarrow> (Some False, w)) =
      ((case registry_at R w op of
        Some validator \<Rightarrow> Some (call_recovered validator x v)
      | None \<Rightarrow> Some False), w)" for x
    using pure
    by (auto simp: registry_pure_def registry_at_def call_recovered_st_pure split: option.split)
  show ?thesis
  proof (cases "d w k")
    case None
    with not_state show ?thesis
      by (simp add: evalSingleCondition_st_absent evalSingleCondition_absent reg)
  next
    case (Some x)
    then have x: "no_String_panic x"
      using d by (auto simp: data_no_panic_def ran_def)
    show ?thesis
    proof (cases "op \<in> set builtin_operators")
      case False
      then show ?thesis
        using Some by (simp add: evalSingleCondition_st_custom evalSingleCondition_custom reg)
    next
      case True
      with not_state have "op \<in> {OperatorEq, OperatorNeq, OperatorGt, OperatorGte, OperatorLt,
          OperatorLte, OperatorIn, OperatorNin, OperatorContains, OperatorNcontains,
          OperatorLike, OperatorIlike, OperatorNlike, OperatorStartsWith, OperatorEndsWith,
          OperatorBetween, OperatorNotBetween}"
        by (auto simp: builtin_operators_def existence_operators_def)
      then show ?thesis
        by (auto simp: evalSingleCondition_present [where d = "d w" and k = k, OF Some]
            evalSingleCondition_st_present [where d = d and w = w and k = k, OF Some]
            isIn_st_isIn [OF keys x v])
    qed
  qed
qed

lemma tree_st_pure:
  fixes t :: "'t Conditions" and cs :: "'t Conditions list" and R :: "('w, 't) world_registry"
  assumes keys: "yields_all_keys K" and pure: "registry_pure R w" and d: "data_no_panic (d w)"
  shows "tree_no_panic t \<Longrightarrow>
      EvaluateCondition_st L K R t d w = (EvaluateCondition L (registry_at R w) t (d w), w)"
    and "\<forall>c\<in>set cs. tree_no_panic c \<Longrightarrow>
      and_children_st L K R cs d w = (and_children L (registry_at R w) cs (d w), w)"
    and "\<forall>c\<in>set cs. tree_no_panic c \<Longrightarrow>
      or_children_st L K R cs d w = (or_children L (registry_at R w) cs (d w), w)"
proof (induction L "registry_at R w" t "d w" and L "registry_at R w" cs "d w"
    and L "registry_at R w" cs "d w"
    rule: EvaluateCondition_and_children_or_children.induct)
  case (1 L lg ch k op v)
  then show ?case
    using leaf_st_pure [where d = d and w = w, OF keys pure d]
    by (auto simp: LogicAnd_def LogicOr_def)
next
  case (2 L)
  then show ?case by simp
next
  case (3 L child rest)
  then show ?case by (auto split: option.splits)
next
  case (4 L)
  then show ?case by simp
next
  case (5 L child rest)
  then show ?case by (auto split: option.splits)
qed

lemma chain_st_pure:
  fixes g :: "'t ConditionGroup" and R :: "('w, 't) world_registry"
  assumes keys: "yields_all_keys K" and pure: "registry_pure R w" and d: "data_no_panic (d w)"
  shows "chain_no_panic g \<Longrightarrow>
      EvaluateConditionGroup_st L K R g d w = (EvaluateConditionGroup L (registry_at R w) g (d w), w)"
    and "\<forall>l\<in>set ls. link_no_panic l \<Longrightarrow>
      chain_loop_st L K R pl res ls d w = (chain_loop L (registry_at R w) pl res ls (d w), w)"
    and "link_no_panic l \<Longrightarrow>
      evaluateConditionWithLogic_st L K R l d w =
        (evaluateConditionWithLogic L (registry_at R w) l (d w), w)"
proof (induction L "registry_at R w" g "d w" and L "registry_at R w" pl res ls "d w"
    and L "registry_at R w" l "d w"
    rule: EvaluateConditionGroup_chain_loop_evaluateConditionWithLogic.induct)
  case (1 L)
  then show ?case by simp
next
  case (2 L first rest)
  then show ?case by (auto split: option.splits)
next
  case (3 L prevLogic result)
  then show ?case by simp
next
  case (4 L prevLogic result cur rest)
  then show ?case by (auto split: option.splits)
next
  case (5 L k op v g nl)
  then show ?case
    using leaf_st_pure [where d = d and w = w, OF keys pure d]
    by (auto split: option.splits)
qed


lemma registry_at_agree:
  assumes "registry_pure R w1" and "registry_pure R w2" and "R w1 op = R w2 op"
  shows "registry_at R w1 op = registry_at R w2 op"
proof (cases "R w1 op")
  case None
  with assms(3) show ?thesis by (simp add: registry_at_def)
next
  case (Some f)
  with assms(1) have "pure_validator f" by (simp add: registry_pure_def)
  then have "stateless w1 f = stateless w2 f"
    by (auto simp: pure_validator_def stateless_def fun_eq_iff)
  with Some assms(3) show ?thesis by (simp add: registry_at_def)
qed

lemma call_recovered_st_snd: "snd (call_recovered_st f a b w) = snd (f a b w)"
  by (simp add: call_recovered_st_def split: prod.split option.split)

lemma leaf_st_frame:
  assumes "leaves_alone R obs"
  shows "obs (snd (evalSingleCondition_st L K R k op v d w)) = obs w"
proof -
  have reg: "obs (snd (case R w op of
        Some validator \<Rightarrow> call_recovered_st validator x v w
      | None \<Rightarrow> (Some False, w))) = obs w" for x
    using assms by (auto simp: leaves_alone_def call_recovered_st_snd split: option.split)
  show ?thesis
  proof (cases "op \<in> set existence_operators")
    case True
    then show ?thesis
      by (simp add: evalSingleCondition_st_state [where R' = Map.empty])
  next
    case not_state: False
    show ?thesis
    proof (cases "d w k")
      case None
      with not_state show ?thesis
        by (simp add: evalSingleCondition_st_absent reg)
    next
      case (Some x)
      show ?thesis
      proof (cases "op \<in> set builtin_operators")
        case False
        then show ?thesis
          by (simp add: evalSingleCondition_st_custom reg)
      next
        case True
        with not_state have "op \<in> {OperatorEq, OperatorNeq, OperatorGt, OperatorGte, OperatorLt,
            OperatorLte, OperatorIn, OperatorNin, OperatorContains, OperatorNcontains,
            OperatorLike, OperatorIlike, OperatorNlike, OperatorStartsWith, OperatorEndsWith,
            OperatorBetween, OperatorNotBetween}"
          by (auto simp: builtin_operators_def existence_operators_def)
        then show ?thesis
          by (auto simp: evalSingleCondition_st_present [where d = d and w = w and k = k, OF Some])
      qed
    qed
  qed
qed

lemma tree_st_frame:
  fixes t :: "'t Conditions" and cs :: "'t Conditions list" and R :: "('w, 't) world_registry"
  shows "leaves_alone R obs \<Longrightarrow> obs (snd (EvaluateCondition_st L K R t d w)) = obs w"
    and "leaves_alone R obs \<Longrightarrow> obs (snd (and_children_st L K R cs d w)) = obs w"
    and "leaves_alone R obs \<Longrightarrow> obs (snd (or_children_st L K R cs d w)) = obs w"
proof (induction L K R t d w and L K R cs d w and L K R cs d w
    rule: EvaluateCondition_st_and_children_st_or_children_st.induct)
  case (1 L K R lg ch k op v data w)
  then show ?case
    using leaf_st_frame [of R obs L K k op v data w]
    by (auto simp: LogicAnd_def LogicOr_def)
next
  case (2 L K R data w)
  then show ?case by simp
next
  case (3 L K R child rest data w)
  then show ?case
    by (cases "EvaluateCondition_st L K R child data w") (auto split: option.splits)
next
  case (4 L K R data w)
  then show ?case by simp
next
  case (5 L K R child rest data w)
  then show ?case
    by (cases "EvaluateCondition_st L K R child data w") (auto split: option.splits)
qed


lemma pure_lifted: "pure_validator (lifted g)"
  by (simp add: pure_validator_def lifted_def)

lemma pure_registry_pure: "registry_pure pure_registry w"
  by (auto simp: registry_pure_def pure_registry_def pure_lifted split: if_splits)

lemma sample_keys_all: "yields_all_keys sample_keys"
  by (auto simp: yields_all_keys_def sample_keys_def)

subsection \<open>What a result depends on\<close>

lemma evalSingleCondition_registry_cong:
  "R op = R' op \<Longrightarrow> evalSingleCondition L R k op v d = evalSingleCondition L R' k op v d"
  by (simp add: evalSingleCondition_def Let_def cong del: if_weak_cong)

lemma tree_registry_cong:
  shows "\<forall>op\<in>tree_operators t. R op = R' op
      \<Longrightarrow> EvaluateCondition L R t d = EvaluateCondition L R' t d"
    and "\<forall>c\<in>set cs. \<forall>op\<in>tree_operators c. R op = R' op
      \<Longrightarrow> and_children L R cs d = and_children L R' cs d"
    and "\<forall>c\<in>set cs. \<forall>op\<in>tree_operators c. R op = R' op
      \<Longrightarrow> or_children L R cs d = or_children L R' cs d"
proof (induction L R t d and L R cs d and L R cs d
    rule: EvaluateCondition_and_children_or_children.induct)
  case (1 L R lg ch k op v data)
  then show ?case
    by (auto simp: evalSingleCondition_registry_cong [of R op R'])
next
  case (2 L R data)
  then show ?case by simp
next
  case (3 L R child rest data)
  then show ?case by (simp split: option.split)
next
  case (4 L R data)
  then show ?case by simp
next
  case (5 L R child rest data)
  then show ?case by (simp split: option.split)
qed

text \<open>
  C9. Let the registered validators be pure, and let no value of the tree or of the data
  record have a \<open>String\<close> method that panics. Then two evaluations of the same tree on
  the same data, in two program states whose registries agree on the operators of the
  tree, give the same result, in whatever order the two states yield the keys of maps,
  and each evaluation leaves the state exactly as it found it. With any validators
  whatever, the evaluator writes nothing itself: an observation of the state (the data
  record, the registry) that the registered validators leave alone is the same after
  the evaluation as before.
\<close>

theorem evaluation_pure_for_pure_validators:
  "(yields_all_keys K \<and> registry_pure R w1 \<and> registry_pure R w2
      \<and> (\<forall>op\<in>tree_operators t. R w1 op = R w2 op) \<and> d w1 = d w2
      \<and> data_no_panic (d w1) \<and> tree_no_panic t \<longrightarrow>
      fst (EvaluateCondition_st L K R t d w1) = fst (EvaluateCondition_st L K R t d w2)
      \<and> snd (EvaluateCondition_st L K R t d w1) = w1
      \<and> snd (EvaluateCondition_st L K R t d w2) = w2)
   \<and> (leaves_alone R obs \<longrightarrow> obs (snd (EvaluateCondition_st L K R t d w)) = obs w)"
proof (intro conjI impI)
  assume a: "yields_all_keys K \<and> registry_pure R w1 \<and> registry_pure R w2
      \<and> (\<forall>op\<in>tree_operators t. R w1 op = R w2 op) \<and> d w1 = d w2
      \<and> data_no_panic (d w1) \<and> tree_no_panic t"
  then have keys: "yields_all_keys K"
    and pure1: "registry_pure R w1" and pure2: "registry_pure R w2"
    and entries: "\<forall>op\<in>tree_operators t. R w1 op = R w2 op"
    and same_data: "d w1 = d w2"
    and data: "data_no_panic (d w1)" and tree: "tree_no_panic t"
    by blast+
  have data2: "data_no_panic (d w2)"
    using data same_data by simp
  have "\<forall>op\<in>tree_operators t. registry_at R w1 op = registry_at R w2 op"
    using entries registry_at_agree [OF pure1 pure2] by blast
  then have same: "EvaluateCondition L (registry_at R w1) t (d w1) =
      EvaluateCondition L (registry_at R w2) t (d w1)"
    by (rule tree_registry_cong(1))
  note st1 = tree_st_pure(1) [where d = d and w = w1 and L = L, OF keys pure1 data tree]
  note st2 = tree_st_pure(1) [where d = d and w = w2 and L = L, OF keys pure2 data2 tree]
  show "fst (EvaluateCondition_st L K R t d w1) = fst (EvaluateCondition_st L K R t d w2)"
    using st1 st2 same same_data by simp
  show "snd (EvaluateCondition_st L K R t d w1) = w1"
    using st1 by simp
  show "snd (EvaluateCondition_st L K R t d w2) = w2"
    using st2 by simp
next
  assume "leaves_alone R obs"
  then show "obs (snd (EvaluateCondition_st L K R t d w)) = obs w"
    by (rule tree_st_frame(1))
qed

theorem evaluation_pure_for_pure_validators_witness:
  "yields_all_keys sample_keys
   \<and> registry_pure pure_registry \<lparr>calls = 0, stored = [''country'' \<mapsto> VString ''TH''], reversed = False\<rparr>
   \<and> registry_pure pure_registry \<lparr>calls = 7, stored = [''country'' \<mapsto> VString ''TH''], reversed = True\<rparr>
   \<and> pure_registry \<lparr>calls = 0, stored = [''country'' \<mapsto> VString ''TH''], reversed = False\<rparr> ''iequal'' = pure_registry \<lparr>calls = 7, stored = [''country'' \<mapsto> VString ''TH''], reversed = True\<rparr> ''iequal''
   \<and> pure_registry \<lparr>calls = 0, stored = [''country'' \<mapsto> VString ''TH''], reversed = False\<rparr> OperatorIn = pure_registry \<lparr>calls = 7, stored = [''country'' \<mapsto> VString ''TH''], reversed = True\<rparr> OperatorIn
   \<and> stored \<lparr>calls = 0, stored = [''country'' \<mapsto> VString ''TH''], reversed = False\<rparr> = stored \<lparr>calls = 7, stored = [''country'' \<mapsto> VString ''TH''], reversed = True\<rparr>
   \<and> sample_keys \<lparr>calls = 0, stored = [''country'' \<mapsto> VString ''TH''], reversed = False\<rparr> [(VString ''SG'', VNil), (VString ''TH'', VNil)]
       \<noteq> sample_keys \<lparr>calls = 7, stored = [''country'' \<mapsto> VString ''TH''], reversed = True\<rparr> [(VString ''SG'', VNil), (VString ''TH'', VNil)]
   \<and> data_no_panic (stored \<lparr>calls = 0, stored = [''country'' \<mapsto> VString ''TH''], reversed = False\<rparr>)
   \<and> tree_no_panic (Conditions ''AND''
        [Conditions [] [] ''country'' ''iequal'' (VString ''th''),
         Conditions [] [] ''country'' OperatorIn
           (VMap [(VString ''SG'', VNil), (VString ''TH'', VNil)])] [] [] VNil)
   \<and> EvaluateCondition_st sample_lib sample_keys pure_registry (Conditions ''AND''
        [Conditions [] [] ''country'' ''iequal'' (VString ''th''),
         Conditions [] [] ''country'' OperatorIn
           (VMap [(VString ''SG'', VNil), (VString ''TH'', VNil)])] [] [] VNil) stored \<lparr>calls = 0, stored = [''country'' \<mapsto> VString ''TH''], reversed = False\<rparr>
       = (Some True, \<lparr>calls = 0, stored = [''country'' \<mapsto> VString ''TH''], reversed = False\<rparr>)
   \<and> EvaluateCondition_st sample_lib sample_keys pure_registry (Conditions ''AND''
        [Conditions [] [] ''country'' ''iequal'' (VString ''th''),
         Conditions [] [] ''country'' OperatorIn
           (VMap [(VString ''SG'', VNil), (VString ''TH'', VNil)])] [] [] VNil) stored \<lparr>calls = 7, stored = [''country'' \<mapsto> VString ''TH''], reversed = True\<rparr>
       = (Some True, \<lparr>calls = 7, stored = [''country'' \<mapsto> VString ''TH''], reversed = True\<rparr>)
   \<and> leaves_alone counting_registry stored
   \<and> EvaluateCondition_st sample_lib sample_keys counting_registry (Conditions [] [] ''country'' ''toggle'' VNil) stored \<lparr>calls = 0, stored = [''country'' \<mapsto> VString ''TH''], reversed = False\<rparr>
       = (Some True, \<lparr>calls = 1, stored = [''country'' \<mapsto> VString ''TH''], reversed = False\<rparr>)
   \<and> stored (snd (EvaluateCondition_st sample_lib sample_keys counting_registry (Conditions [] [] ''country'' ''toggle'' VNil) stored \<lparr>calls = 0, stored = [''country'' \<mapsto> VString ''TH''], reversed = False\<rparr>))
       = stored \<lparr>calls = 0, stored = [''country'' \<mapsto> VString ''TH''], reversed = False\<rparr>"
proof -
  have hyps: "yields_all_keys sample_keys"
    "registry_pure pure_registry \<lparr>calls = 0, stored = [''country'' \<mapsto> VString ''TH''], reversed = False\<rparr>"
    "registry_pure pure_registry \<lparr>calls = 7, stored = [''country'' \<mapsto> VString ''TH''], reversed = True\<rparr>"
    "\<forall>op\<in>tree_operators (Conditions ''AND''
        [Conditions [] [] ''country'' ''iequal'' (VString ''th''),
         Conditions [] [] ''country'' OperatorIn
           (VMap [(VString ''SG'', VNil), (VString ''TH'', VNil)])] [] [] VNil). pure_registry \<lparr>calls = 0, stored = [''country'' \<mapsto> VString ''TH''], reversed = False\<rparr> op = pure_registry \<lparr>calls = 7, stored = [''country'' \<mapsto> VString ''TH''], reversed = True\<rparr> op"
    "stored \<lparr>calls = 0, stored = [''country'' \<mapsto> VString ''TH''], reversed = False\<rparr> = stored \<lparr>calls = 7, stored = [''country'' \<mapsto> VString ''TH''], reversed = True\<rparr>"
    "data_no_panic (stored \<lparr>calls = 0, stored = [''country'' \<mapsto> VString ''TH''], reversed = False\<rparr>)"
    "tree_no_panic (Conditions ''AND''
        [Conditions [] [] ''country'' ''iequal'' (VString ''th''),
         Conditions [] [] ''country'' OperatorIn
           (VMap [(VString ''SG'', VNil), (VString ''TH'', VNil)])] [] [] VNil)"
    "leaves_alone counting_registry stored"
    by (auto simp: sample_keys_all pure_registry_pure pure_registry_def data_no_panic_def ran_def
        leaves_alone_def counting_registry_def toggle_def split: if_splits)
  have facts: "pure_registry \<lparr>calls = 0, stored = [''country'' \<mapsto> VString ''TH''], reversed = False\<rparr> ''iequal'' = pure_registry \<lparr>calls = 7, stored = [''country'' \<mapsto> VString ''TH''], reversed = True\<rparr> ''iequal''"
    "pure_registry \<lparr>calls = 0, stored = [''country'' \<mapsto> VString ''TH''], reversed = False\<rparr> OperatorIn = pure_registry \<lparr>calls = 7, stored = [''country'' \<mapsto> VString ''TH''], reversed = True\<rparr> OperatorIn"
    "sample_keys \<lparr>calls = 0, stored = [''country'' \<mapsto> VString ''TH''], reversed = False\<rparr> [(VString ''SG'', VNil), (VString ''TH'', VNil)]
       \<noteq> sample_keys \<lparr>calls = 7, stored = [''country'' \<mapsto> VString ''TH''], reversed = True\<rparr> [(VString ''SG'', VNil), (VString ''TH'', VNil)]"
    "EvaluateCondition_st sample_lib sample_keys pure_registry (Conditions ''AND''
        [Conditions [] [] ''country'' ''iequal'' (VString ''th''),
         Conditions [] [] ''country'' OperatorIn
           (VMap [(VString ''SG'', VNil), (VString ''TH'', VNil)])] [] [] VNil) stored \<lparr>calls = 0, stored = [''country'' \<mapsto> VString ''TH''], reversed = False\<rparr>
       = (Some True, \<lparr>calls = 0, stored = [''country'' \<mapsto> VString ''TH''], reversed = False\<rparr>)"
    "EvaluateCondition_st sample_lib sample_keys counting_registry (Conditions [] [] ''country'' ''toggle'' VNil) stored \<lparr>calls = 0, stored = [''country'' \<mapsto> VString ''TH''], reversed = False\<rparr>
       = (Some True, \<lparr>calls = 1, stored = [''country'' \<mapsto> VString ''TH''], reversed = False\<rparr>)"
    by (simp_all add: evalSingleCondition_st_def Operator_defs LogicAnd_def LogicOr_def
        pure_registry_def counting_registry_def call_recovered_st_def lifted_def accept_all_def
        toggle_def sample_keys_def isEqual_def equal_strings_def sample_lib_def
        sample_ParseFloat_def)
  show ?thesis
    using hyps facts
      evaluation_pure_for_pure_validators [where K = sample_keys and R = pure_registry
          and ?w1.0 = "\<lparr>calls = 0, stored = [''country'' \<mapsto> VString ''TH''], reversed = False\<rparr>" and ?w2.0 = "\<lparr>calls = 7, stored = [''country'' \<mapsto> VString ''TH''], reversed = True\<rparr>" and t = "(Conditions ''AND''
        [Conditions [] [] ''country'' ''iequal'' (VString ''th''),
         Conditions [] [] ''country'' OperatorIn
           (VMap [(VString ''SG'', VNil), (VString ''TH'', VNil)])] [] [] VNil)" and d = stored and L = sample_lib]
      evaluation_pure_for_pure_validators [where K = sample_keys and R = counting_registry
          and obs = stored and t = "(Conditions [] [] ''country'' ''toggle'' VNil)" and d = stored and L = sample_lib and w = "\<lparr>calls = 0, stored = [''country'' \<mapsto> VString ''TH''], reversed = False\<rparr>"]
    by (metis fst_conv prod.collapse)
qed

text \<open>
  As C9 is worded it fails. The same tree on the same data is true while \<open>iequal\<close> is
  registered and false once it is unregistered. With a validator that keeps state, two
  evaluations of the same tree on the same data under the same registry give true and
  then false; a validator that writes into the data record leaves it changed. And when
  a map has a key whose \<open>String\<close> method panics, one order of its keys gives true and
  the other a panic.
\<close>

theorem evaluation_depends_on_registry_counterexample:
  "EvaluateCondition sample_lib [''iequal'' \<mapsto> accept_all]
     (Conditions [] [] ''country'' ''iequal'' (VString ''th'')) [''country'' \<mapsto> VString ''TH'']
     = Some True
   \<and> EvaluateCondition sample_lib (UnregisterCustomOperator ''iequal'' [''iequal'' \<mapsto> accept_all])
     (Conditions [] [] ''country'' ''iequal'' (VString ''th'')) [''country'' \<mapsto> VString ''TH'']
     = Some False
   \<and> EvaluateCondition_st sample_lib sample_keys stateful_registry
     (Conditions [] [] ''country'' ''toggle'' VNil) stored
     \<lparr>calls = 0, stored = [''country'' \<mapsto> VString ''TH''], reversed = False\<rparr>
     = (Some True, \<lparr>calls = 1, stored = [''country'' \<mapsto> VString ''TH''], reversed = False\<rparr>)
   \<and> EvaluateCondition_st sample_lib sample_keys stateful_registry
     (Conditions [] [] ''country'' ''toggle'' VNil) stored
     \<lparr>calls = 1, stored = [''country'' \<mapsto> VString ''TH''], reversed = False\<rparr>
     = (Some False, \<lparr>calls = 2, stored = [''country'' \<mapsto> VString ''TH''], reversed = False\<rparr>)
   \<and> EvaluateCondition_st sample_lib sample_keys stateful_registry
     (Conditions [] [] ''country'' ''scribble'' VNil) stored
     \<lparr>calls = 0, stored = [''country'' \<mapsto> VString ''TH''], reversed = False\<rparr>
     = (Some True,
        \<lparr>calls = 0, stored = [''country'' \<mapsto> VString ''TH'', ''seen'' \<mapsto> VBool True],
         reversed = False\<rparr>)
   \<and> EvaluateCondition_st sample_lib sample_keys pure_registry
     (Conditions [] [] ''country'' OperatorIn
        (VMap [(VString ''TH'', VNil), (VOther (VPtr True) StringPanics, VNil)])) stored
     \<lparr>calls = 0, stored = [''country'' \<mapsto> VString ''TH''], reversed = False\<rparr>
     = (Some True, \<lparr>calls = 0, stored = [''country'' \<mapsto> VString ''TH''], reversed = False\<rparr>)
   \<and> EvaluateCondition_st sample_lib sample_keys pure_registry
     (Conditions [] [] ''country'' OperatorIn
        (VMap [(VString ''TH'', VNil), (VOther (VPtr True) StringPanics, VNil)])) stored
     \<lparr>calls = 0, stored = [''country'' \<mapsto> VString ''TH''], reversed = True\<rparr>
     = (None, \<lparr>calls = 0, stored = [''country'' \<mapsto> VString ''TH''], reversed = True\<rparr>)"
  by (simp add: UnregisterCustomOperator_def evalSingleCondition_def evalSingleCondition_st_def
      Operator_defs call_recovered_def accept_all_def stateful_registry_def pure_registry_def
      call_recovered_st_def toggle_def scribble_def sample_keys_def isEqual_def equal_strings_def
      sample_lib_def sample_ParseFloat_def)

subsection \<open>Short-circuit in a group of a tree\<close>

lemma and_children_short:
  "\<forall>x\<in>set xs. EvaluateCondition L R x d = Some True \<Longrightarrow>
   and_children L R (xs @ ys) d = and_children L R ys d"
  by (induction xs) auto

lemma or_children_short:
  "\<forall>x\<in>set xs. EvaluateCondition L R x d = Some False \<Longrightarrow>
   or_children L R (xs @ ys) d = or_children L R ys d"
  by (induction xs) auto

text \<open>
  C4. A group is decided by its children in list order. In an \<open>AND\<close> group whose first
  children are true and whose next child is false the result is false whatever follows,
  also when a later child would panic; in an \<open>OR\<close> group whose first children are false
  and whose next child is true the result is true whatever follows. When no child
  decides, an \<open>AND\<close> group is true and an \<open>OR\<close> group is false.
\<close>

theorem group_short_circuit:
  "((\<forall>x\<in>set xs. EvaluateCondition L R x d = Some True) \<and> EvaluateCondition L R c d = Some False
      \<longrightarrow> EvaluateCondition L R (Conditions LogicAnd (xs @ c # ys) k op v) d = Some False)
   \<and> ((\<forall>x\<in>set xs. EvaluateCondition L R x d = Some False) \<and> EvaluateCondition L R c d = Some True
      \<longrightarrow> EvaluateCondition L R (Conditions LogicOr (xs @ c # ys) k op v) d = Some True)
   \<and> ((\<forall>x\<in>set xs. EvaluateCondition L R x d = Some True) \<and> xs \<noteq> []
      \<longrightarrow> EvaluateCondition L R (Conditions LogicAnd xs k op v) d = Some True)
   \<and> ((\<forall>x\<in>set xs. EvaluateCondition L R x d = Some False) \<and> xs \<noteq> []
      \<longrightarrow> EvaluateCondition L R (Conditions LogicOr xs k op v) d = Some False)"
  using and_children_short [of xs L R d "c # ys"] or_children_short [of xs L R d "c # ys"]
    and_children_short [of xs L R d "[]"] or_children_short [of xs L R d "[]"]
  by (auto simp: LogicAnd_def LogicOr_def)

theorem group_short_circuit_witness:
  "EvaluateCondition sample_lib Map.empty (Conditions [] [] ''age'' OperatorIsnull VNil)
        [''age'' \<mapsto> VInt 25, ''created'' \<mapsto> VOther (VPtr True) StringPanics] = Some False
   \<and> EvaluateCondition sample_lib Map.empty
        (Conditions [] [] ''created'' OperatorContains (VString ''2024''))
        [''age'' \<mapsto> VInt 25, ''created'' \<mapsto> VOther (VPtr True) StringPanics] = None
   \<and> EvaluateCondition sample_lib Map.empty
        (Conditions LogicAnd
          ([Conditions [] [] ''age'' OperatorIsnotnull VNil]
           @ Conditions [] [] ''age'' OperatorIsnull VNil
           # [Conditions [] [] ''created'' OperatorContains (VString ''2024'')]) [] [] VNil)
        [''age'' \<mapsto> VInt 25, ''created'' \<mapsto> VOther (VPtr True) StringPanics] = Some False
   \<and> EvaluateCondition sample_lib Map.empty (Conditions [] [] ''age'' OperatorIsnotnull VNil)
        [''age'' \<mapsto> VInt 25, ''created'' \<mapsto> VOther (VPtr True) StringPanics] = Some True
   \<and> EvaluateCondition sample_lib Map.empty
        (Conditions LogicOr
          ([Conditions [] [] ''age'' OperatorIsnull VNil]
           @ Conditions [] [] ''age'' OperatorIsnotnull VNil
           # [Conditions [] [] ''created'' OperatorContains (VString ''2024'')]) [] [] VNil)
        [''age'' \<mapsto> VInt 25, ''created'' \<mapsto> VOther (VPtr True) StringPanics] = Some True"
proof -
  have hyps: "\<forall>x\<in>set [Conditions [] [] ''age'' OperatorIsnotnull VNil :: int Conditions].
       EvaluateCondition sample_lib Map.empty x
         [''age'' \<mapsto> VInt 25, ''created'' \<mapsto> VOther (VPtr True) StringPanics] = Some True"
    "EvaluateCondition sample_lib Map.empty (Conditions [] [] ''age'' OperatorIsnull VNil)
        [''age'' \<mapsto> VInt 25, ''created'' \<mapsto> VOther (VPtr True) StringPanics] = Some False"
    "EvaluateCondition sample_lib Map.empty
        (Conditions [] [] ''created'' OperatorContains (VString ''2024''))
        [''age'' \<mapsto> VInt 25, ''created'' \<mapsto> VOther (VPtr True) StringPanics] = None"
    "\<forall>x\<in>set [Conditions [] [] ''age'' OperatorIsnull VNil :: int Conditions].
       EvaluateCondition sample_lib Map.empty x
         [''age'' \<mapsto> VInt 25, ''created'' \<mapsto> VOther (VPtr True) StringPanics] = Some False"
    "EvaluateCondition sample_lib Map.empty (Conditions [] [] ''age'' OperatorIsnotnull VNil)
        [''age'' \<mapsto> VInt 25, ''created'' \<mapsto> VOther (VPtr True) StringPanics] = Some True"
    by (simp_all add: evalSingleCondition_def Operator_defs contains_def)
  show ?thesis
    using hyps
      group_short_circuit [where L = sample_lib and R = Map.empty
          and d = "[''age'' \<mapsto> VInt 25, ''created'' \<mapsto> VOther (VPtr True) StringPanics]"
          and xs = "[Conditions [] [] ''age'' OperatorIsnotnull VNil]"
          and c = "Conditions [] [] ''age'' OperatorIsnull VNil"
          and ys = "[Conditions [] [] ''created'' OperatorContains (VString ''2024'')]"
          and k = "[]" and op = "[]" and v = VNil]
      group_short_circuit [where L = sample_lib and R = Map.empty
          and d = "[''age'' \<mapsto> VInt 25, ''created'' \<mapsto> VOther (VPtr True) StringPanics]"
          and xs = "[Conditions [] [] ''age'' OperatorIsnull VNil]"
          and c = "Conditions [] [] ''age'' OperatorIsnotnull VNil"
          and ys = "[Conditions [] [] ''created'' OperatorContains (VString ''2024'')]"
          and k = "[]" and op = "[]" and v = VNil]
    by blast
qed

subsection \<open>Chains are left folds\<close>

lemma chain_loop_fold:
  "chain_loop L R pl res ls d =
     map_option
       (\<lambda>rs. foldl (\<lambda>result (next_logic, current). combine_spec next_logic result current) res
          (zip (pl # map NextLogic ls) rs))
       (those (map (\<lambda>l. evaluateConditionWithLogic L R l d) ls))"
proof (induction ls arbitrary: pl res)
  case Nil
  then show ?case by simp
next
  case (Cons l ls)
  show ?case
  proof (cases "evaluateConditionWithLogic L R l d")
    case None
    then show ?thesis by simp
  next
    case (Some cur)
    then show ?thesis
      by (simp add: Cons.IH combine_spec_def LogicAnd_def LogicOr_def option.map_comp comp_def)
  qed
qed

lemma those_None_iff: "those xs = None \<longleftrightarrow> None \<in> set xs"
  by (induction xs) (auto split: option.splits)

lemma chain_refines_spec:
  fixes g :: "'t ConditionGroup" and l :: "'t ConditionWithLogic"
  shows "EvaluateConditionGroup L R g d = chain_spec L R g d"
    and "evaluateConditionWithLogic L R l d = link_spec L R l d"
proof (induction g and l)
  case (ConditionGroup links)
  then have links: "map (\<lambda>l. evaluateConditionWithLogic L R l d) links =
      map (\<lambda>l. link_spec L R l d) links"
    by simp
  have "EvaluateConditionGroup L R (ConditionGroup links) d =
      map_option (chain_fold_spec (map NextLogic links))
        (those (map (\<lambda>l. evaluateConditionWithLogic L R l d) links))"
  proof (cases links)
    case Nil
    then show ?thesis by simp
  next
    case (Cons l ls)
    then show ?thesis
      by (cases "evaluateConditionWithLogic L R l d")
         (simp_all add: chain_loop_fold option.map_comp comp_def)
  qed
  then show ?case
    unfolding links by simp
next
  case (ConditionWithLogic k op v g nl)
  then show ?case by (cases g) auto
qed

text \<open>
  C5. Evaluating a chain is the left fold of the specification, in full: a link that is
  a single condition has the result of the single-condition evaluator, a link that is a
  nested chain has the result of that chain, and the results of all links are combined
  from left to right under the \<open>NextLogic\<close> of the link before (\<open>AND\<close> conjunction, \<open>OR\<close>
  disjunction, anything else conjunction). The empty chain is true; a chain of two
  single conditions is the conjunction or the disjunction of their two results; and
  every link is evaluated, so that a link that panics makes the chain panic even where
  the partial result is already decided.
\<close>

theorem chain_is_left_fold:
  "EvaluateConditionGroup L R g d = chain_spec L R g d
   \<and> evaluateConditionWithLogic L R (ConditionWithLogic k op v None nl) d =
       evalSingleCondition L R k op v d
   \<and> evaluateConditionWithLogic L R (ConditionWithLogic k op v (Some sub_chain) nl) d =
       EvaluateConditionGroup L R sub_chain d
   \<and> EvaluateConditionGroup L R (ConditionGroup links) d =
       map_option (chain_fold_spec (map NextLogic links))
         (those (map (\<lambda>l. evaluateConditionWithLogic L R l d) links))
   \<and> EvaluateConditionGroup L R (ConditionGroup []) d = Some True
   \<and> EvaluateConditionGroup L R
        (ConditionGroup [ConditionWithLogic k1 op1 v1 None nl1,
                         ConditionWithLogic k2 op2 v2 None nl2]) d =
      (case evalSingleCondition L R k1 op1 v1 d of
         None \<Rightarrow> None
       | Some r1 \<Rightarrow>
           (case evalSingleCondition L R k2 op2 v2 d of
              None \<Rightarrow> None
            | Some r2 \<Rightarrow> Some (if nl1 = ''OR'' then r1 \<or> r2 else r1 \<and> r2)))
   \<and> ((\<exists>l\<in>set links. evaluateConditionWithLogic L R l d = None) \<longrightarrow>
        EvaluateConditionGroup L R (ConditionGroup links) d = None)"
proof -
  have fold: "EvaluateConditionGroup L R (ConditionGroup links) d =
     map_option (chain_fold_spec (map NextLogic links))
       (those (map (\<lambda>l. evaluateConditionWithLogic L R l d) links))"
    by (simp add: chain_refines_spec)
  have "those (map (\<lambda>l. evaluateConditionWithLogic L R l d) links) = None"
    if "\<exists>l\<in>set links. evaluateConditionWithLogic L R l d = None"
    using that by (auto simp: those_None_iff image_iff) metis
  with fold have panics: "(\<exists>l\<in>set links. evaluateConditionWithLogic L R l d = None) \<longrightarrow>
      EvaluateConditionGroup L R (ConditionGroup links) d = None"
    by simp
  have two: "EvaluateConditionGroup L R
        (ConditionGroup [ConditionWithLogic k1 op1 v1 None nl1,
                         ConditionWithLogic k2 op2 v2 None nl2]) d =
      (case evalSingleCondition L R k1 op1 v1 d of
         None \<Rightarrow> None
       | Some r1 \<Rightarrow>
           (case evalSingleCondition L R k2 op2 v2 d of
              None \<Rightarrow> None
            | Some r2 \<Rightarrow> Some (if nl1 = ''OR'' then r1 \<or> r2 else r1 \<and> r2)))"
    by (auto simp: LogicAnd_def LogicOr_def split: option.splits)
  have leaf: "evaluateConditionWithLogic L R (ConditionWithLogic k op v None nl) d =
       evalSingleCondition L R k op v d"
    by simp
  have nested: "evaluateConditionWithLogic L R
       (ConditionWithLogic k op v (Some sub_chain) nl) d =
       EvaluateConditionGroup L R sub_chain d"
    by simp
  have empty: "EvaluateConditionGroup L R (ConditionGroup []) d = Some True"
    by simp
  show ?thesis
    using chain_refines_spec(1) [of L R g d] leaf nested fold empty two panics
    by blast
qed

theorem chain_is_left_fold_witness:
  "EvaluateConditionGroup sample_lib Map.empty
      (ConditionGroup
        [ConditionWithLogic ''age'' OperatorGt (VInt 30) None ''AND'',
         ConditionWithLogic ''country'' OperatorEq (VString ''SG'') None []])
      [''age'' \<mapsto> VInt 25, ''country'' \<mapsto> VString ''TH''] = Some False
   \<and> EvaluateConditionGroup sample_lib Map.empty
      (ConditionGroup
        [ConditionWithLogic ''age'' OperatorGt (VInt 30) None ''OR'',
         ConditionWithLogic ''country'' OperatorEq (VString ''TH'') None []])
      [''age'' \<mapsto> VInt 25, ''country'' \<mapsto> VString ''TH''] = Some True
   \<and> EvaluateConditionGroup sample_lib Map.empty
      (ConditionGroup
        [ConditionWithLogic ''age'' OperatorGt (VInt 30) None [],
         ConditionWithLogic ''country'' OperatorEq (VString ''TH'') None []])
      [''age'' \<mapsto> VInt 25, ''country'' \<mapsto> VString ''TH''] = Some False
   \<and> EvaluateConditionGroup sample_lib Map.empty (ConditionGroup
        [ConditionWithLogic ''age'' OperatorGt (VInt 18) None ''OR'',
         ConditionWithLogic ''country'' OperatorEq (VString ''SG'') None ''AND'',
         ConditionWithLogic ''age'' OperatorGt (VInt 30) None []]) [''age'' \<mapsto> VInt 25, ''country'' \<mapsto> VString ''TH''] = Some False
   \<and> chain_spec sample_lib Map.empty (ConditionGroup
        [ConditionWithLogic ''age'' OperatorGt (VInt 18) None ''OR'',
         ConditionWithLogic ''country'' OperatorEq (VString ''SG'') None ''AND'',
         ConditionWithLogic ''age'' OperatorGt (VInt 30) None []]) [''age'' \<mapsto> VInt 25, ''country'' \<mapsto> VString ''TH''] = Some False
   \<and> EvaluateConditionGroup sample_lib Map.empty
      (ConditionGroup
        [ConditionWithLogic [] [] VNil
           (Some (ConditionGroup
             [ConditionWithLogic ''age'' OperatorGt (VInt 30) None ''OR'',
              ConditionWithLogic ''country'' OperatorEq (VString ''TH'') None []])) ''AND'',
         ConditionWithLogic ''age'' OperatorGt (VInt 18) None []])
      [''age'' \<mapsto> VInt 25, ''country'' \<mapsto> VString ''TH''] = Some True
   \<and> EvaluateConditionGroup sample_lib Map.empty
      (ConditionGroup
        [ConditionWithLogic [] [] VNil
           (Some (ConditionGroup
             [ConditionWithLogic ''age'' OperatorGt (VInt 30) None ''AND'',
              ConditionWithLogic ''country'' OperatorEq (VString ''TH'') None []])) ''AND'',
         ConditionWithLogic ''age'' OperatorGt (VInt 18) None []])
      [''age'' \<mapsto> VInt 25, ''country'' \<mapsto> VString ''TH''] = Some False
   \<and> evaluateConditionWithLogic sample_lib Map.empty
        (ConditionWithLogic ''created'' OperatorContains (VString ''2024'') None [])
        [''age'' \<mapsto> VInt 25, ''created'' \<mapsto> VOther (VPtr True) StringPanics] = None
   \<and> EvaluateConditionGroup sample_lib Map.empty (ConditionGroup [ConditionWithLogic ''age'' OperatorIsnull VNil None ''AND'',
         ConditionWithLogic ''created'' OperatorContains (VString ''2024'') None []]) [''age'' \<mapsto> VInt 25, ''created'' \<mapsto> VOther (VPtr True) StringPanics] = None"
proof -
  have panics: "\<exists>l\<in>set [ConditionWithLogic ''age'' OperatorIsnull VNil None ''AND'',
         ConditionWithLogic ''created'' OperatorContains (VString ''2024'') None []].
      evaluateConditionWithLogic sample_lib Map.empty l [''age'' \<mapsto> VInt 25, ''created'' \<mapsto> VOther (VPtr True) StringPanics] = None"
    by (simp add: evalSingleCondition_def Operator_defs contains_def)
  have chains: "EvaluateConditionGroup sample_lib Map.empty
      (ConditionGroup
        [ConditionWithLogic ''age'' OperatorGt (VInt 30) None ''AND'',
         ConditionWithLogic ''country'' OperatorEq (VString ''SG'') None []])
      [''age'' \<mapsto> VInt 25, ''country'' \<mapsto> VString ''TH''] = Some False"
    "EvaluateConditionGroup sample_lib Map.empty
      (ConditionGroup
        [ConditionWithLogic ''age'' OperatorGt (VInt 30) None ''OR'',
         ConditionWithLogic ''country'' OperatorEq (VString ''TH'') None []])
      [''age'' \<mapsto> VInt 25, ''country'' \<mapsto> VString ''TH''] = Some True"
    "EvaluateConditionGroup sample_lib Map.empty
      (ConditionGroup
        [ConditionWithLogic ''age'' OperatorGt (VInt 30) None [],
         ConditionWithLogic ''country'' OperatorEq (VString ''TH'') None []])
      [''age'' \<mapsto> VInt 25, ''country'' \<mapsto> VString ''TH''] = Some False"
    "EvaluateConditionGroup sample_lib Map.empty (ConditionGroup
        [ConditionWithLogic ''age'' OperatorGt (VInt 18) None ''OR'',
         ConditionWithLogic ''country'' OperatorEq (VString ''SG'') None ''AND'',
         ConditionWithLogic ''age'' OperatorGt (VInt 30) None []]) [''age'' \<mapsto> VInt 25, ''country'' \<mapsto> VString ''TH''] = Some False"
    "EvaluateConditionGroup sample_lib Map.empty
      (ConditionGroup
        [ConditionWithLogic [] [] VNil
           (Some (ConditionGroup
             [ConditionWithLogic ''age'' OperatorGt (VInt 30) None ''OR'',
              ConditionWithLogic ''country'' OperatorEq (VString ''TH'') None []])) ''AND'',
         ConditionWithLogic ''age'' OperatorGt (VInt 18) None []])
      [''age'' \<mapsto> VInt 25, ''country'' \<mapsto> VString ''TH''] = Some True"
    "EvaluateConditionGroup sample_lib Map.empty
      (ConditionGroup
        [ConditionWithLogic [] [] VNil
           (Some (ConditionGroup
             [ConditionWithLogic ''age'' OperatorGt (VInt 30) None ''AND'',
              ConditionWithLogic ''country'' OperatorEq (VString ''TH'') None []])) ''AND'',
         ConditionWithLogic ''age'' OperatorGt (VInt 18) None []])
      [''age'' \<mapsto> VInt 25, ''country'' \<mapsto> VString ''TH''] = Some False"
    "evaluateConditionWithLogic sample_lib Map.empty
        (ConditionWithLogic ''created'' OperatorContains (VString ''2024'') None [])
        [''age'' \<mapsto> VInt 25, ''created'' \<mapsto> VOther (VPtr True) StringPanics] = None"
    by (simp_all add: evalSingleCondition_def Operator_defs contains_def LogicAnd_def
        LogicOr_def compareValues_def isEqual_def equal_strings_def sample_lib_def
        sample_ParseFloat_def f64_gt_def)
  from chain_is_left_fold [where L = sample_lib and R = Map.empty and g = "(ConditionGroup
        [ConditionWithLogic ''age'' OperatorGt (VInt 18) None ''OR'',
         ConditionWithLogic ''country'' OperatorEq (VString ''SG'') None ''AND'',
         ConditionWithLogic ''age'' OperatorGt (VInt 30) None []])"
          and links = "[ConditionWithLogic ''age'' OperatorIsnull VNil None ''AND'',
         ConditionWithLogic ''created'' OperatorContains (VString ''2024'') None []]" and d = "[''age'' \<mapsto> VInt 25, ''created'' \<mapsto> VOther (VPtr True) StringPanics]"]
  have later: "EvaluateConditionGroup sample_lib Map.empty (ConditionGroup [ConditionWithLogic ''age'' OperatorIsnull VNil None ''AND'',
         ConditionWithLogic ''created'' OperatorContains (VString ''2024'') None []]) [''age'' \<mapsto> VInt 25, ''created'' \<mapsto> VOther (VPtr True) StringPanics] = None"
    using panics by blast
  from chain_is_left_fold [where L = sample_lib and R = Map.empty and g = "(ConditionGroup
        [ConditionWithLogic ''age'' OperatorGt (VInt 18) None ''OR'',
         ConditionWithLogic ''country'' OperatorEq (VString ''SG'') None ''AND'',
         ConditionWithLogic ''age'' OperatorGt (VInt 30) None []])" and d = "[''age'' \<mapsto> VInt 25, ''country'' \<mapsto> VString ''TH'']"]
  have spec: "chain_spec sample_lib Map.empty (ConditionGroup
        [ConditionWithLogic ''age'' OperatorGt (VInt 18) None ''OR'',
         ConditionWithLogic ''country'' OperatorEq (VString ''SG'') None ''AND'',
         ConditionWithLogic ''age'' OperatorGt (VInt 30) None []]) [''age'' \<mapsto> VInt 25, ''country'' \<mapsto> VString ''TH''] = Some False"
    using chains(4) by simp
  show ?thesis
    using chains later spec by blast
qed


subsection \<open>The order of coercions in \<open>compareValues\<close>\<close>

lemma str_less_lexord:
  "str_less s1 s2 \<longleftrightarrow> (s1, s2) \<in> lexord {(a, b). (of_char a :: nat) < of_char b}"
  by (induction s1 s2 rule: str_less.induct) auto

lemma difference_sign_compare:
  "difference_sign n1 n2 = Some s \<Longrightarrow>
   (if f64_lt n1 n2 then - 1 else if f64_gt n1 n2 then 1 else 0) = s"
  by (cases n1; cases n2) (auto simp: f64_gt_def)

lemma no_difference_sign:
  "difference_sign n1 n2 = None \<Longrightarrow> \<not> f64_lt n1 n2 \<and> \<not> f64_gt n1 n2"
  by (cases n1; cases n2) (auto simp: f64_gt_def)

text \<open>
  C7. \<open>compareValues\<close> tries the coercions in a fixed order. When both arguments
  coerce to numbers the result is -1, 0 or 1 as the first is less than, neither, or
  greater than the second in the order of the floats: that is the sign of their
  difference wherever the difference has a sign, so for all finite numbers, and it is 0
  where it has none, when one of the two is a NaN or both are the same infinity.
  Otherwise, when both coerce to times, the result is their
  temporal order. Otherwise it is the lexicographic order, byte by byte, of their string
  forms. With a \<open>ParseFloat\<close> that reads \<open>5\<close> and \<open>10\<close> as these numbers,
  \<open>compareValues("5", "10")\<close> is negative; with one that rejects \<open>b\<close>, and no time
  layout that accepts it, \<open>compareValues("b", "a")\<close> is positive.
\<close>

theorem compareValues_coercion_order:
  "(toNumber L v1 = Some n1 \<and> toNumber L v2 = Some n2 \<longrightarrow>
      compareValues L v1 v2 = Some (if f64_lt n1 n2 then - 1 else if f64_gt n1 n2 then 1 else 0))
   \<and> (toNumber L v1 = Some n1 \<and> toNumber L v2 = Some n2 \<and> difference_sign n1 n2 = Some s \<longrightarrow>
      compareValues L v1 v2 = Some s)
   \<and> (toNumber L v1 = Some n1 \<and> toNumber L v2 = Some n2 \<and> difference_sign n1 n2 = None \<longrightarrow>
      compareValues L v1 v2 = Some 0)
   \<and> (toNumber L v1 = Some (Finite a) \<and> toNumber L v2 = Some (Finite b) \<longrightarrow>
      map_option rat_of_int (compareValues L v1 v2) = Some (sgn (a - b)))
   \<and> (\<not> (toNumber L v1 \<noteq> None \<and> toNumber L v2 \<noteq> None)
        \<and> toTime L v1 = Some t1 \<and> toTime L v2 = Some t2 \<longrightarrow>
      compareValues L v1 v2 = Some (if Before L t1 t2 then - 1 else if After L t1 t2 then 1 else 0))
   \<and> (\<not> (toNumber L v1 \<noteq> None \<and> toNumber L v2 \<noteq> None)
        \<and> \<not> (toTime L v1 \<noteq> None \<and> toTime L v2 \<noteq> None)
        \<and> toString L v1 = Some s1 \<and> toString L v2 = Some s2 \<longrightarrow>
      compareValues L v1 v2 =
        Some (if (s1, s2) \<in> lexord {(x, y). (of_char x :: nat) < of_char y} then - 1
              else if (s2, s1) \<in> lexord {(x, y). (of_char x :: nat) < of_char y} then 1 else 0))
   \<and> (ParseFloat L ''5'' = Some (Finite 5) \<and> ParseFloat L ''10'' = Some (Finite 10) \<longrightarrow>
      (\<exists>c. compareValues L (VString ''5'') (VString ''10'') = Some c \<and> c < 0))
   \<and> (ParseFloat L ''b'' = None \<and> (\<forall>layout\<in>set time_formats. time_Parse L layout ''b'' = None) \<longrightarrow>
      (\<exists>c. compareValues L (VString ''b'') (VString ''a'') = Some c \<and> c > 0))"
proof -
  have tf: "\<forall>layout\<in>set time_formats. time_Parse L layout ''b'' = None \<Longrightarrow>
      try_formats L time_formats ''b'' = None"
    by (simp add: time_formats_def)
  have numbers: "(toNumber L v1 = Some n1 \<and> toNumber L v2 = Some n2
        \<and> difference_sign n1 n2 = Some s \<longrightarrow> compareValues L v1 v2 = Some s)
     \<and> (toNumber L v1 = Some n1 \<and> toNumber L v2 = Some n2
        \<and> difference_sign n1 n2 = None \<longrightarrow> compareValues L v1 v2 = Some 0)"
    using difference_sign_compare [of n1 n2 s] no_difference_sign [of n1 n2]
    by (auto simp: compareValues_def f64_gt_def)
  have rest: "(toNumber L v1 = Some n1 \<and> toNumber L v2 = Some n2 \<longrightarrow>
      compareValues L v1 v2 = Some (if f64_lt n1 n2 then - 1 else if f64_gt n1 n2 then 1 else 0))
   \<and> (toNumber L v1 = Some (Finite a) \<and> toNumber L v2 = Some (Finite b) \<longrightarrow>
      map_option rat_of_int (compareValues L v1 v2) = Some (sgn (a - b)))
   \<and> (\<not> (toNumber L v1 \<noteq> None \<and> toNumber L v2 \<noteq> None)
        \<and> toTime L v1 = Some t1 \<and> toTime L v2 = Some t2 \<longrightarrow>
      compareValues L v1 v2 = Some (if Before L t1 t2 then - 1 else if After L t1 t2 then 1 else 0))
   \<and> (\<not> (toNumber L v1 \<noteq> None \<and> toNumber L v2 \<noteq> None)
        \<and> \<not> (toTime L v1 \<noteq> None \<and> toTime L v2 \<noteq> None)
        \<and> toString L v1 = Some s1 \<and> toString L v2 = Some s2 \<longrightarrow>
      compareValues L v1 v2 =
        Some (if (s1, s2) \<in> lexord {(x, y). (of_char x :: nat) < of_char y} then - 1
              else if (s2, s1) \<in> lexord {(x, y). (of_char x :: nat) < of_char y} then 1 else 0))
   \<and> (ParseFloat L ''5'' = Some (Finite 5) \<and> ParseFloat L ''10'' = Some (Finite 10) \<longrightarrow>
      (\<exists>c. compareValues L (VString ''5'') (VString ''10'') = Some c \<and> c < 0))
   \<and> (ParseFloat L ''b'' = None \<and> (\<forall>layout\<in>set time_formats. time_Parse L layout ''b'' = None) \<longrightarrow>
      (\<exists>c. compareValues L (VString ''b'') (VString ''a'') = Some c \<and> c > 0))"
    by (auto simp: compareValues_def compare_times_def compare_strings_def f64_gt_def
        str_less_lexord [symmetric] tf split: option.splits)
  show ?thesis
    using numbers rest by blast
qed

theorem compareValues_coercion_order_witness:
  "toNumber sample_lib (VString ''5'') = Some (Finite 5)
   \<and> toNumber sample_lib (VString ''10'') = Some (Finite 10)
   \<and> difference_sign (Finite 5) (Finite 10) = Some (- 1)
   \<and> compareValues sample_lib (VString ''5'') (VString ''10'') = Some (- 1)
   \<and> toNumber sample_lib (VFloat64 NaN) = Some NaN
   \<and> toNumber sample_lib (VInt 5) = Some (Finite 5)
   \<and> difference_sign NaN (Finite 5) = None
   \<and> compareValues sample_lib (VFloat64 NaN) (VInt 5) = Some 0
   \<and> \<not> (toNumber sample_lib (VTime 7) \<noteq> None \<and> toNumber sample_lib (VInt64 3) \<noteq> None)
   \<and> toTime sample_lib (VTime 7) = Some 7 \<and> toTime sample_lib (VInt64 3) = Some 3
   \<and> compareValues sample_lib (VTime 7) (VInt64 3) = Some 1
   \<and> \<not> (toNumber sample_lib (VString ''b'') \<noteq> None \<and> toNumber sample_lib (VString ''a'') \<noteq> None)
   \<and> \<not> (toTime sample_lib (VString ''b'') \<noteq> None \<and> toTime sample_lib (VString ''a'') \<noteq> None)
   \<and> toString sample_lib (VString ''b'') = Some ''b''
   \<and> toString sample_lib (VString ''a'') = Some ''a''
   \<and> compareValues sample_lib (VString ''b'') (VString ''a'') = Some 1
   \<and> ParseFloat sample_lib ''5'' = Some (Finite 5)
   \<and> ParseFloat sample_lib ''10'' = Some (Finite 10)
   \<and> ParseFloat sample_lib ''b'' = None
   \<and> try_formats sample_lib time_formats ''b'' = None"
proof -
  have hyps: "toNumber sample_lib (VString ''5'') = Some (Finite 5)"
    "difference_sign (Finite 5) (Finite 10) = Some (- 1)"
    "toNumber sample_lib (VFloat64 NaN) = Some NaN"
    "toNumber sample_lib (VInt 5) = Some (Finite 5)"
    "difference_sign NaN (Finite 5) = None"
    "toNumber sample_lib (VString ''10'') = Some (Finite 10)"
    "\<not> (toNumber sample_lib (VTime 7) \<noteq> None \<and> toNumber sample_lib (VInt64 3) \<noteq> None)"
    "toTime sample_lib (VTime 7) = Some 7" "toTime sample_lib (VInt64 3) = Some 3"
    "\<not> (toNumber sample_lib (VString ''b'') \<noteq> None \<and> toNumber sample_lib (VString ''a'') \<noteq> None)"
    "\<not> (toTime sample_lib (VString ''b'') \<noteq> None \<and> toTime sample_lib (VString ''a'') \<noteq> None)"
    "toString sample_lib (VString ''b'') = Some ''b''"
    "toString sample_lib (VString ''a'') = Some ''a''"
    "ParseFloat sample_lib ''5'' = Some (Finite 5)"
    "ParseFloat sample_lib ''10'' = Some (Finite 10)"
    "ParseFloat sample_lib ''b'' = None"
    "\<forall>layout\<in>set time_formats. time_Parse sample_lib layout ''b'' = None"
    "try_formats sample_lib time_formats ''b'' = None"
    "Before sample_lib 7 3 = False" "After sample_lib 7 3 = True"
    by (simp_all add: sample_lib_def sample_ParseFloat_def Let_def time_formats_def)
  show ?thesis
    using hyps
      compareValues_coercion_order [where L = sample_lib
          and ?v1.0 = "VString ''5''" and ?v2.0 = "VString ''10''"
          and ?n1.0 = "Finite 5" and ?n2.0 = "Finite 10" and a = 5 and b = 10 and s = "- 1"]
      compareValues_coercion_order [where L = sample_lib
          and ?v1.0 = "VFloat64 NaN" and ?v2.0 = "VInt 5"
          and ?n1.0 = "NaN" and ?n2.0 = "Finite 5"]
      compareValues_coercion_order [where L = sample_lib
          and ?v1.0 = "VTime 7" and ?v2.0 = "VInt64 3" and ?t1.0 = 7 and ?t2.0 = 3]
      compareValues_coercion_order [where L = sample_lib
          and ?v1.0 = "VString ''b''" and ?v2.0 = "VString ''a''"
          and ?s1.0 = "''b''" and ?s2.0 = "''a''"]
    by (simp add: f64_gt_def)
qed

text \<open>
  As C7 is worded it fails where the difference of the two numbers has no sign. A NaN
  against 5 compares as 0, as if the two were equal, while \<open>isEqual\<close> says they are
  not: the NaN is at once \<open>>=\<close> 5 and \<open><=\<close> 5 and not \<open>==\<close> 5. Two equal infinities,
  whose difference is a NaN, compare as 0 as well.
\<close>

theorem compareValues_without_difference_sign_counterexample:
  "toNumber sample_lib (VFloat64 NaN) = Some NaN
   \<and> toNumber sample_lib (VInt 5) = Some (Finite 5)
   \<and> difference_sign NaN (Finite 5) = None
   \<and> compareValues sample_lib (VFloat64 NaN) (VInt 5) = Some 0
   \<and> isEqual sample_lib (VFloat64 NaN) (VInt 5) = Some False
   \<and> evalSingleCondition sample_lib Map.empty ''x'' OperatorGte (VInt 5)
       [''x'' \<mapsto> VFloat64 NaN] = Some True
   \<and> evalSingleCondition sample_lib Map.empty ''x'' OperatorLte (VInt 5)
       [''x'' \<mapsto> VFloat64 NaN] = Some True
   \<and> evalSingleCondition sample_lib Map.empty ''x'' OperatorEq (VInt 5)
       [''x'' \<mapsto> VFloat64 NaN] = Some False
   \<and> difference_sign PosInf PosInf = None
   \<and> compareValues sample_lib (VFloat64 PosInf) (VFloat64 PosInf) = Some 0"
  by (simp add: compareValues_def f64_gt_def isEqual_def equal_strings_def
      evalSingleCondition_def Operator_defs sample_lib_def)

subsection \<open>Conversion of a tree into a chain\<close>

lemma chain_loop_convert_Cons:
  "chain_loop L R pl res (convert_children lg (c # cs)) d =
     (case link_result L R c d of
        None \<Rightarrow> None
      | Some cur \<Rightarrow>
          chain_loop L R (if cs \<noteq> [] then lg else [])
            (if pl = LogicAnd then res \<and> cur
             else if pl = LogicOr then res \<or> cur
             else res \<and> cur)
            (convert_children lg cs) d)"
  by (auto simp: link_result_def Let_def split: option.split)

lemma EvaluateConditionGroup_convert_Cons:
  "EvaluateConditionGroup L R (ConditionGroup (convert_children lg (c # cs))) d =
     (case link_result L R c d of
        None \<Rightarrow> None
      | Some r \<Rightarrow> chain_loop L R (if cs \<noteq> [] then lg else []) r (convert_children lg cs) d)"
  by (auto simp: link_result_def Let_def split: option.split)

lemma chain_loop_convert_and_returns:
  assumes "\<forall>c\<in>set cs. \<forall>b. link_result L R c d = Some b \<longrightarrow> EvaluateCondition L R c d = Some b"
    and "pl = LogicAnd \<or> cs = []"
    and "chain_loop L R pl res (convert_children LogicAnd cs) d = Some b"
  shows "map_option (\<lambda>r. res \<and> r) (and_children L R cs d) = Some b"
  using assms
proof (induction cs arbitrary: pl res b)
  case Nil
  then show ?case by simp
next
  case (Cons c cs)
  from Cons.prems(3) obtain cur where cur: "link_result L R c d = Some cur"
    by (auto simp: chain_loop_convert_Cons simp del: convert_children.simps split: option.splits)
  with Cons.prems(1) have ec: "EvaluateCondition L R c d = Some cur" by simp
  from Cons.prems(2,3) cur
  have "chain_loop L R (if cs \<noteq> [] then LogicAnd else []) (res \<and> cur)
      (convert_children LogicAnd cs) d = Some b"
    by (simp add: chain_loop_convert_Cons del: convert_children.simps)
  then have "map_option (\<lambda>r. (res \<and> cur) \<and> r) (and_children L R cs d) = Some b"
    using Cons.prems(1) by (intro Cons.IH) auto
  with ec show ?case by (cases cur) auto
qed

lemma chain_loop_convert_or_returns:
  assumes "\<forall>c\<in>set cs. \<forall>b. link_result L R c d = Some b \<longrightarrow> EvaluateCondition L R c d = Some b"
    and "pl = LogicOr \<or> cs = []"
    and "chain_loop L R pl res (convert_children LogicOr cs) d = Some b"
  shows "map_option (\<lambda>r. res \<or> r) (or_children L R cs d) = Some b"
  using assms
proof (induction cs arbitrary: pl res b)
  case Nil
  then show ?case by simp
next
  case (Cons c cs)
  from Cons.prems(3) obtain cur where cur: "link_result L R c d = Some cur"
    by (auto simp: chain_loop_convert_Cons simp del: convert_children.simps split: option.splits)
  with Cons.prems(1) have ec: "EvaluateCondition L R c d = Some cur" by simp
  from Cons.prems(2,3) cur
  have "chain_loop L R (if cs \<noteq> [] then LogicOr else []) (res \<or> cur)
      (convert_children LogicOr cs) d = Some b"
    by (auto simp: chain_loop_convert_Cons LogicAnd_def LogicOr_def simp del: convert_children.simps split: if_splits)
  then have "map_option (\<lambda>r. (res \<or> cur) \<or> r) (or_children L R cs d) = Some b"
    using Cons.prems(1) by (intro Cons.IH) auto
  with ec show ?case by (cases cur) auto
qed

lemma group_conversion_returns:
  assumes ch: "ch \<noteq> []"
    and lr: "\<forall>c\<in>set ch. \<forall>b. link_result L R c d = Some b \<longrightarrow> EvaluateCondition L R c d = Some b"
  shows "EvaluateConditionGroup L R (ConditionGroup (convert_children LogicAnd ch)) d = Some b
      \<Longrightarrow> and_children L R ch d = Some b"
    and "EvaluateConditionGroup L R (ConditionGroup (convert_children LogicOr ch)) d = Some b
      \<Longrightarrow> or_children L R ch d = Some b"
proof -
  from ch obtain c cs where ccs: "ch = c # cs" by (cases ch) auto
  have rest: "\<forall>c\<in>set cs. \<forall>b. link_result L R c d = Some b \<longrightarrow> EvaluateCondition L R c d = Some b"
    using lr ccs by auto
  {
    assume a: "EvaluateConditionGroup L R (ConditionGroup (convert_children LogicAnd ch)) d = Some b"
    then obtain cur where cur: "link_result L R c d = Some cur"
      using ccs by (auto simp: EvaluateConditionGroup_convert_Cons simp del: convert_children.simps split: option.splits)
    with lr ccs have ec: "EvaluateCondition L R c d = Some cur" by simp
    from a cur ccs
    have "chain_loop L R (if cs \<noteq> [] then LogicAnd else []) cur (convert_children LogicAnd cs) d = Some b"
      by (simp add: EvaluateConditionGroup_convert_Cons del: convert_children.simps)
    then have "map_option (\<lambda>r. cur \<and> r) (and_children L R cs d) = Some b"
      using rest by (intro chain_loop_convert_and_returns) auto
    with ec ccs show "and_children L R ch d = Some b" by (cases cur) auto
  }
  {
    assume a: "EvaluateConditionGroup L R (ConditionGroup (convert_children LogicOr ch)) d = Some b"
    then obtain cur where cur: "link_result L R c d = Some cur"
      using ccs by (auto simp: EvaluateConditionGroup_convert_Cons simp del: convert_children.simps split: option.splits)
    with lr ccs have ec: "EvaluateCondition L R c d = Some cur" by simp
    from a cur ccs
    have "chain_loop L R (if cs \<noteq> [] then LogicOr else []) cur (convert_children LogicOr cs) d = Some b"
      by (simp add: EvaluateConditionGroup_convert_Cons del: convert_children.simps)
    then have "map_option (\<lambda>r. cur \<or> r) (or_children L R cs d) = Some b"
      using rest by (intro chain_loop_convert_or_returns) auto
    with ec ccs show "or_children L R ch d = Some b" by (cases cur) auto
  }
qed

lemma conversion_when_chain_returns:
  "well_formed t \<Longrightarrow> groups_without_key t \<Longrightarrow>
   EvaluateConditionGroup L R (ConvertToConditionGroup t) d = Some b \<Longrightarrow>
   EvaluateCondition L R t d = Some b"
proof (induction t arbitrary: b)
  case (Conditions lg ch k op v)
  show ?case
  proof (cases "(lg = LogicAnd \<or> lg = LogicOr) \<and> ch \<noteq> []")
    case False
    with Conditions.prems have "k \<noteq> []" "op \<noteq> []" by auto
    with False Conditions.prems(3) show ?thesis
      by (cases "evalSingleCondition L R k op v d") (auto simp: LogicAnd_def LogicOr_def)
  next
    case True
    with Conditions.prems have k: "k = []"
      and wf: "\<forall>c\<in>set ch. well_formed c"
      and gk: "\<forall>c\<in>set ch. groups_without_key c"
      by (auto simp: LogicAnd_def LogicOr_def)
    have lr: "\<forall>c\<in>set ch. \<forall>b. link_result L R c d = Some b \<longrightarrow> EvaluateCondition L R c d = Some b"
    proof (intro ballI allI impI)
      fix c b'
      assume c: "c \<in> set ch" and res: "link_result L R c d = Some b'"
      obtain lg' ch' k' op' v' where c_eq: "c = Conditions lg' ch' k' op' v'"
        by (cases c)
      show "EvaluateCondition L R c d = Some b'"
      proof (cases "k' = []")
        case True
        then have "EvaluateConditionGroup L R (ConvertToConditionGroup c) d = Some b'"
          using res c_eq by (simp add: link_result_def)
        then show ?thesis
          using Conditions.IH [OF c] wf gk c by blast
      next
        case False
        from gk wf c have "groups_without_key c" "well_formed c" by blast+
        with False c_eq
        have "\<not> ((lg' = LogicAnd \<or> lg' = LogicOr) \<and> ch' \<noteq> [])" "op' \<noteq> []"
          by auto
        with False c_eq res show ?thesis
          by (auto simp: link_result_def LogicAnd_def LogicOr_def)
      qed
    qed
    from True have ch: "ch \<noteq> []" by simp
    show ?thesis
      using True k Conditions.prems(3) group_conversion_returns [OF ch lr, of b]
      by (auto simp: LogicAnd_def LogicOr_def)
  qed
qed


lemma convert_no_panic:
  shows "tree_no_panic (t :: 't Conditions) \<Longrightarrow> chain_no_panic (ConvertToConditionGroup t)"
    and "\<forall>c\<in>set (cs :: 't Conditions list). tree_no_panic c \<Longrightarrow>
      \<forall>l\<in>set (convert_children lg cs). link_no_panic l"
proof (induction t and lg cs rule: ConvertToConditionGroup_convert_children.induct)
  case (1 lg ch k op v)
  then show ?case by simp
next
  case (2 lg)
  then show ?case by simp
next
  case (3 lg child rest)
  obtain lg' ch' k' op' v' where c: "child = Conditions lg' ch' k' op' v'"
    by (cases child)
  with 3 show ?case by (auto simp: Let_def)
qed

lemma conversion_pure:
  assumes "well_formed t" and "groups_without_key t"
    and "data_no_panic d" and "tree_no_panic t"
  shows "EvaluateCondition L R t d = EvaluateConditionGroup L R (ConvertToConditionGroup t) d"
proof -
  have "EvaluateConditionGroup L R (ConvertToConditionGroup t) d \<noteq> None"
    using assms(3,4) chain_returns(1) [of d "ConvertToConditionGroup t" L R]
      convert_no_panic(1) [of t]
    by blast
  then obtain r where r: "EvaluateConditionGroup L R (ConvertToConditionGroup t) d = Some r"
    by auto
  then have "EvaluateCondition L R t d = Some r"
    using assms(1,2) by (rule conversion_when_chain_returns [rotated 2])
  with r show ?thesis by simp
qed

text \<open>
  C1. Take a well-formed tree in which no group carries a key, registered validators
  that are pure, and a tree and a data record none of whose values has a \<open>String\<close>
  method that panics. Then evaluating the tree in one program state, and evaluating
  the converted chain in another with the same registry and the same data record, give
  the same boolean, in whatever order the two states yield the keys of maps; and each
  evaluation leaves its state exactly as it found it, so that the two evaluations also
  agree when one follows the other.
\<close>

theorem conversion_preserves_evaluation:
  assumes wf: "well_formed t" and gk: "groups_without_key t"
    and keys: "yields_all_keys K"
    and pure1: "registry_pure R w1" and pure2: "registry_pure R w2"
    and same_registry: "R w1 = R w2" and same_data: "d w1 = d w2"
    and data: "data_no_panic (d w1)" and tree: "tree_no_panic t"
  shows "fst (EvaluateCondition_st L K R t d w1) =
           fst (EvaluateConditionGroup_st L K R (ConvertToConditionGroup t) d w2)
     \<and> fst (EvaluateCondition_st L K R t d w1) \<noteq> None
     \<and> snd (EvaluateCondition_st L K R t d w1) = w1
     \<and> snd (EvaluateConditionGroup_st L K R (ConvertToConditionGroup t) d w2) = w2"
proof -
  have data2: "data_no_panic (d w2)"
    using data same_data by simp
  have chain: "chain_no_panic (ConvertToConditionGroup t)"
    using tree by (rule convert_no_panic(1))
  have "registry_at R w1 op = registry_at R w2 op" for op
    using registry_at_agree [OF pure1 pure2] same_registry by simp
  then have "registry_at R w1 = registry_at R w2"
    by (simp add: fun_eq_iff)
  then show ?thesis
    using tree_st_pure(1) [where d = d and w = w1 and L = L, OF keys pure1 data tree]
      chain_st_pure(1) [where d = d and w = w2 and L = L, OF keys pure2 data2 chain]
      conversion_pure [OF wf gk data tree, of L "registry_at R w1"] same_data
      tree_returns(1) [OF data tree, of L "registry_at R w1"]
    by simp
qed

theorem conversion_preserves_evaluation_witness:
  "well_formed ((Conditions ''AND''
        [Conditions [] [] ''age'' OperatorGt (VInt 18),
         Conditions ''OR''
           [Conditions [] [] ''country'' OperatorEq (VString ''SG''),
            Conditions [] [] ''country'' ''iequal'' (VString ''th'')] [] [] VNil,
         Conditions [] [] ''country'' OperatorIn
           (VMap [(VString ''SG'', VNil), (VString ''TH'', VNil)])]
        [] [] VNil) :: int Conditions)
   \<and> groups_without_key ((Conditions ''AND''
        [Conditions [] [] ''age'' OperatorGt (VInt 18),
         Conditions ''OR''
           [Conditions [] [] ''country'' OperatorEq (VString ''SG''),
            Conditions [] [] ''country'' ''iequal'' (VString ''th'')] [] [] VNil,
         Conditions [] [] ''country'' OperatorIn
           (VMap [(VString ''SG'', VNil), (VString ''TH'', VNil)])]
        [] [] VNil) :: int Conditions)
   \<and> yields_all_keys sample_keys
   \<and> registry_pure pure_registry \<lparr>calls = 0, stored = [''age'' \<mapsto> VInt 25, ''country'' \<mapsto> VString ''TH''], reversed = False\<rparr>
   \<and> registry_pure pure_registry \<lparr>calls = 7, stored = [''age'' \<mapsto> VInt 25, ''country'' \<mapsto> VString ''TH''], reversed = True\<rparr>
   \<and> pure_registry \<lparr>calls = 0, stored = [''age'' \<mapsto> VInt 25, ''country'' \<mapsto> VString ''TH''], reversed = False\<rparr> = pure_registry \<lparr>calls = 7, stored = [''age'' \<mapsto> VInt 25, ''country'' \<mapsto> VString ''TH''], reversed = True\<rparr>
   \<and> stored \<lparr>calls = 0, stored = [''age'' \<mapsto> VInt 25, ''country'' \<mapsto> VString ''TH''], reversed = False\<rparr> = stored \<lparr>calls = 7, stored = [''age'' \<mapsto> VInt 25, ''country'' \<mapsto> VString ''TH''], reversed = True\<rparr>
   \<and> data_no_panic (stored \<lparr>calls = 0, stored = [''age'' \<mapsto> VInt 25, ''country'' \<mapsto> VString ''TH''], reversed = False\<rparr>)
   \<and> tree_no_panic ((Conditions ''AND''
        [Conditions [] [] ''age'' OperatorGt (VInt 18),
         Conditions ''OR''
           [Conditions [] [] ''country'' OperatorEq (VString ''SG''),
            Conditions [] [] ''country'' ''iequal'' (VString ''th'')] [] [] VNil,
         Conditions [] [] ''country'' OperatorIn
           (VMap [(VString ''SG'', VNil), (VString ''TH'', VNil)])]
        [] [] VNil) :: int Conditions)
   \<and> EvaluateCondition_st sample_lib sample_keys pure_registry (Conditions ''AND''
        [Conditions [] [] ''age'' OperatorGt (VInt 18),
         Conditions ''OR''
           [Conditions [] [] ''country'' OperatorEq (VString ''SG''),
            Conditions [] [] ''country'' ''iequal'' (VString ''th'')] [] [] VNil,
         Conditions [] [] ''country'' OperatorIn
           (VMap [(VString ''SG'', VNil), (VString ''TH'', VNil)])]
        [] [] VNil) stored \<lparr>calls = 0, stored = [''age'' \<mapsto> VInt 25, ''country'' \<mapsto> VString ''TH''], reversed = False\<rparr>
       = (Some True, \<lparr>calls = 0, stored = [''age'' \<mapsto> VInt 25, ''country'' \<mapsto> VString ''TH''], reversed = False\<rparr>)
   \<and> EvaluateConditionGroup_st sample_lib sample_keys pure_registry
       (ConvertToConditionGroup (Conditions ''AND''
        [Conditions [] [] ''age'' OperatorGt (VInt 18),
         Conditions ''OR''
           [Conditions [] [] ''country'' OperatorEq (VString ''SG''),
            Conditions [] [] ''country'' ''iequal'' (VString ''th'')] [] [] VNil,
         Conditions [] [] ''country'' OperatorIn
           (VMap [(VString ''SG'', VNil), (VString ''TH'', VNil)])]
        [] [] VNil)) stored \<lparr>calls = 7, stored = [''age'' \<mapsto> VInt 25, ''country'' \<mapsto> VString ''TH''], reversed = True\<rparr>
       = (Some True, \<lparr>calls = 7, stored = [''age'' \<mapsto> VInt 25, ''country'' \<mapsto> VString ''TH''], reversed = True\<rparr>)"
proof -
  have wf: "well_formed ((Conditions ''AND''
        [Conditions [] [] ''age'' OperatorGt (VInt 18),
         Conditions ''OR''
           [Conditions [] [] ''country'' OperatorEq (VString ''SG''),
            Conditions [] [] ''country'' ''iequal'' (VString ''th'')] [] [] VNil,
         Conditions [] [] ''country'' OperatorIn
           (VMap [(VString ''SG'', VNil), (VString ''TH'', VNil)])]
        [] [] VNil) :: int Conditions)"
    by (simp add: LogicAnd_def LogicOr_def Operator_defs)
  have gk: "groups_without_key ((Conditions ''AND''
        [Conditions [] [] ''age'' OperatorGt (VInt 18),
         Conditions ''OR''
           [Conditions [] [] ''country'' OperatorEq (VString ''SG''),
            Conditions [] [] ''country'' ''iequal'' (VString ''th'')] [] [] VNil,
         Conditions [] [] ''country'' OperatorIn
           (VMap [(VString ''SG'', VNil), (VString ''TH'', VNil)])]
        [] [] VNil) :: int Conditions)"
    by (simp add: LogicAnd_def LogicOr_def)
  have keys: "yields_all_keys sample_keys"
    by (rule sample_keys_all)
  have pure1: "registry_pure pure_registry \<lparr>calls = 0, stored = [''age'' \<mapsto> VInt 25, ''country'' \<mapsto> VString ''TH''], reversed = False\<rparr>"
    by (rule pure_registry_pure)
  have pure2: "registry_pure pure_registry \<lparr>calls = 7, stored = [''age'' \<mapsto> VInt 25, ''country'' \<mapsto> VString ''TH''], reversed = True\<rparr>"
    by (rule pure_registry_pure)
  have same_registry: "pure_registry \<lparr>calls = 0, stored = [''age'' \<mapsto> VInt 25, ''country'' \<mapsto> VString ''TH''], reversed = False\<rparr> = pure_registry \<lparr>calls = 7, stored = [''age'' \<mapsto> VInt 25, ''country'' \<mapsto> VString ''TH''], reversed = True\<rparr>"
    by (simp add: pure_registry_def)
  have same_data: "stored \<lparr>calls = 0, stored = [''age'' \<mapsto> VInt 25, ''country'' \<mapsto> VString ''TH''], reversed = False\<rparr> = stored \<lparr>calls = 7, stored = [''age'' \<mapsto> VInt 25, ''country'' \<mapsto> VString ''TH''], reversed = True\<rparr>"
    by simp
  have data: "data_no_panic (stored \<lparr>calls = 0, stored = [''age'' \<mapsto> VInt 25, ''country'' \<mapsto> VString ''TH''], reversed = False\<rparr>)"
    by (auto simp: data_no_panic_def ran_def)
  have tree: "tree_no_panic ((Conditions ''AND''
        [Conditions [] [] ''age'' OperatorGt (VInt 18),
         Conditions ''OR''
           [Conditions [] [] ''country'' OperatorEq (VString ''SG''),
            Conditions [] [] ''country'' ''iequal'' (VString ''th'')] [] [] VNil,
         Conditions [] [] ''country'' OperatorIn
           (VMap [(VString ''SG'', VNil), (VString ''TH'', VNil)])]
        [] [] VNil) :: int Conditions)"
    by simp
  have tree_true: "EvaluateCondition_st sample_lib sample_keys pure_registry (Conditions ''AND''
        [Conditions [] [] ''age'' OperatorGt (VInt 18),
         Conditions ''OR''
           [Conditions [] [] ''country'' OperatorEq (VString ''SG''),
            Conditions [] [] ''country'' ''iequal'' (VString ''th'')] [] [] VNil,
         Conditions [] [] ''country'' OperatorIn
           (VMap [(VString ''SG'', VNil), (VString ''TH'', VNil)])]
        [] [] VNil) stored \<lparr>calls = 0, stored = [''age'' \<mapsto> VInt 25, ''country'' \<mapsto> VString ''TH''], reversed = False\<rparr>
       = (Some True, \<lparr>calls = 0, stored = [''age'' \<mapsto> VInt 25, ''country'' \<mapsto> VString ''TH''], reversed = False\<rparr>)"
    by (simp add: evalSingleCondition_st_def Operator_defs LogicAnd_def LogicOr_def
        pure_registry_def call_recovered_st_def lifted_def accept_all_def
        sample_keys_def compareValues_def f64_gt_def isEqual_def equal_strings_def
        sample_lib_def sample_ParseFloat_def)
  show ?thesis
    using wf gk keys pure1 pure2 same_registry same_data data tree tree_true
      conversion_preserves_evaluation [where K = sample_keys and R = pure_registry
          and ?w1.0 = "\<lparr>calls = 0, stored = [''age'' \<mapsto> VInt 25, ''country'' \<mapsto> VString ''TH''], reversed = False\<rparr>" and ?w2.0 = "\<lparr>calls = 7, stored = [''age'' \<mapsto> VInt 25, ''country'' \<mapsto> VString ''TH''], reversed = True\<rparr>" and t = "(Conditions ''AND''
        [Conditions [] [] ''age'' OperatorGt (VInt 18),
         Conditions ''OR''
           [Conditions [] [] ''country'' OperatorEq (VString ''SG''),
            Conditions [] [] ''country'' ''iequal'' (VString ''th'')] [] [] VNil,
         Conditions [] [] ''country'' OperatorIn
           (VMap [(VString ''SG'', VNil), (VString ''TH'', VNil)])]
        [] [] VNil)" and d = stored and L = sample_lib,
          OF wf gk keys pure1 pure2 same_registry same_data data tree]
    by (metis fst_conv prod.collapse)
qed

text \<open>
  As C1 is worded it fails three times. A node that is a group and also carries a key is
  evaluated as a group but converted as a single condition. The chain evaluates
  every link where the tree stops at the first deciding child, so that a child that
  panics is met by the chain alone. And with a validator that keeps state the tree,
  which stops early, calls it once, and the chain, which does not, calls it twice: the
  tree is true and the chain false, from the same state.
\<close>

theorem conversion_changes_evaluation_counterexample:
  "well_formed (Conditions ''AND''
       [Conditions [] [] ''a'' OperatorIsnull VNil] ''a'' OperatorIsnotnull VNil :: int Conditions)
   \<and> EvaluateCondition sample_lib Map.empty
       (Conditions ''AND'' [Conditions [] [] ''a'' OperatorIsnull VNil] ''a'' OperatorIsnotnull VNil)
       Map.empty = Some True
   \<and> EvaluateConditionGroup sample_lib Map.empty (ConvertToConditionGroup
       (Conditions ''AND'' [Conditions [] [] ''a'' OperatorIsnull VNil] ''a'' OperatorIsnotnull VNil))
       Map.empty = Some False
   \<and> well_formed (Conditions ''AND''
       [Conditions [] [] ''age'' OperatorIsnull VNil,
        Conditions [] [] ''created'' OperatorContains (VString ''2024'')] [] [] VNil :: int Conditions)
   \<and> EvaluateCondition sample_lib Map.empty
       (Conditions ''AND''
         [Conditions [] [] ''age'' OperatorIsnull VNil,
          Conditions [] [] ''created'' OperatorContains (VString ''2024'')] [] [] VNil)
       [''age'' \<mapsto> VInt 25, ''created'' \<mapsto> VOther (VPtr True) StringPanics] = Some False
   \<and> EvaluateConditionGroup sample_lib Map.empty (ConvertToConditionGroup
       (Conditions ''AND''
         [Conditions [] [] ''age'' OperatorIsnull VNil,
          Conditions [] [] ''created'' OperatorContains (VString ''2024'')] [] [] VNil))
       [''age'' \<mapsto> VInt 25, ''created'' \<mapsto> VOther (VPtr True) StringPanics] = None
   \<and> well_formed ((Conditions ''AND''
       [Conditions ''OR''
          [Conditions [] [] ''country'' OperatorIsnotnull VNil,
           Conditions [] [] ''country'' ''toggle'' VNil] [] [] VNil,
        Conditions [] [] ''country'' ''toggle'' VNil] [] [] VNil) :: int Conditions)
   \<and> groups_without_key ((Conditions ''AND''
       [Conditions ''OR''
          [Conditions [] [] ''country'' OperatorIsnotnull VNil,
           Conditions [] [] ''country'' ''toggle'' VNil] [] [] VNil,
        Conditions [] [] ''country'' ''toggle'' VNil] [] [] VNil) :: int Conditions)
   \<and> tree_no_panic ((Conditions ''AND''
       [Conditions ''OR''
          [Conditions [] [] ''country'' OperatorIsnotnull VNil,
           Conditions [] [] ''country'' ''toggle'' VNil] [] [] VNil,
        Conditions [] [] ''country'' ''toggle'' VNil] [] [] VNil) :: int Conditions)
   \<and> EvaluateCondition_st sample_lib sample_keys stateful_registry
     (Conditions ''AND''
       [Conditions ''OR''
          [Conditions [] [] ''country'' OperatorIsnotnull VNil,
           Conditions [] [] ''country'' ''toggle'' VNil] [] [] VNil,
        Conditions [] [] ''country'' ''toggle'' VNil] [] [] VNil) stored
     \<lparr>calls = 0, stored = [''country'' \<mapsto> VString ''TH''], reversed = False\<rparr>
     = (Some True, \<lparr>calls = 1, stored = [''country'' \<mapsto> VString ''TH''], reversed = False\<rparr>)
   \<and> EvaluateConditionGroup_st sample_lib sample_keys stateful_registry
     (ConvertToConditionGroup (Conditions ''AND''
       [Conditions ''OR''
          [Conditions [] [] ''country'' OperatorIsnotnull VNil,
           Conditions [] [] ''country'' ''toggle'' VNil] [] [] VNil,
        Conditions [] [] ''country'' ''toggle'' VNil] [] [] VNil)) stored
     \<lparr>calls = 0, stored = [''country'' \<mapsto> VString ''TH''], reversed = False\<rparr>
     = (Some False, \<lparr>calls = 2, stored = [''country'' \<mapsto> VString ''TH''], reversed = False\<rparr>)"
  by (simp add: LogicAnd_def LogicOr_def Operator_defs evalSingleCondition_def contains_def
      evalSingleCondition_st_def stateful_registry_def call_recovered_st_def toggle_def)

end
